theory Spec2Isabelle
  imports Main
begin

section \<open>Strings\<close>

text \<open>
  A JavaScript string is modelled as a \<^typ>\<open>string\<close> whose characters are the UTF-16
  code units below 256 (Latin-1). On this range \<^verbatim>\<open>toLowerCase\<close> keeps the length,
  and the white space of \<^verbatim>\<open>trim\<close> and of the regular expression class
  \<^verbatim>\<open>\s\<close> is TAB, LF, VT, FF, CR, SPACE and NBSP.
\<close>

definition code_unit :: "char \<Rightarrow> nat" where
  "code_unit c = of_char c"

text \<open>The upper-case letters below 256 are A to Z and U+00C0 to U+00DE without the
  multiplication sign U+00D7; the lower-case form of each is 32 above it.\<close>

definition lower_char :: "char \<Rightarrow> char" where
  "lower_char c =
     (let n = code_unit c in
      if (65 \<le> n \<and> n \<le> 90) \<or> (192 \<le> n \<and> n \<le> 214) \<or> (216 \<le> n \<and> n \<le> 222)
      then char_of (n + 32) else c)"

definition toLowerCase :: "string \<Rightarrow> string" where
  "toLowerCase s = map lower_char s"

definition startsWith :: "string \<Rightarrow> string \<Rightarrow> bool" where
  "startsWith s p = (take (length p) s = p)"

definition endsWith :: "string \<Rightarrow> string \<Rightarrow> bool" where
  "endsWith s e = (length e \<le> length s \<and> drop (length s - length e) s = e)"

definition is_space :: "char \<Rightarrow> bool" where
  "is_space c = (code_unit c \<in> {9, 10, 11, 12, 13, 32, 160})"

definition trim :: "string \<Rightarrow> string" where
  "trim s = rev (dropWhile is_space (rev (dropWhile is_space s)))"

text \<open>\<^verbatim>\<open>s.replace(/\s+/g, '_')\<close>: scanning from the left, every maximal run of white
  space is replaced by one underscore.\<close>

function replace_space_runs :: "string \<Rightarrow> string" where
  "replace_space_runs [] = []"
| "replace_space_runs (c # cs) =
     (if is_space c then CHR ''_'' # replace_space_runs (dropWhile is_space cs)
      else c # replace_space_runs cs)"
  by pat_completeness auto
termination
  by (relation "measure length") (auto simp: length_dropWhile_le less_Suc_eq_le)

text \<open>Decimal rendering of a non-negative integer (\<^verbatim>\<open>String(n)\<close>, template
  interpolation of a number).\<close>

definition digit_char :: "nat \<Rightarrow> char" where
  "digit_char d = char_of (48 + d)"

function show_nat :: "nat \<Rightarrow> string" where
  "show_nat n = (if n < 10 then [digit_char n] else show_nat (n div 10) @ [digit_char (n mod 10)])"
  by pat_completeness auto
termination
  by (relation "measure id") auto

declare show_nat.simps [simp del]

section \<open>Paths\<close>

text \<open>
  Node's POSIX \<^verbatim>\<open>path\<close> functions, on the paths the program builds: absolute,
  normalised, joined with a single entry name that holds no slash.
\<close>

definition path_join :: "string \<Rightarrow> string \<Rightarrow> string" where
  "path_join d e =
     (if d = [] \<and> e = [] then ''.''
      else if d = [] then e
      else if e = [] then d
      else if last d = CHR ''/'' then d @ e
      else d @ ''/'' @ e)"

text \<open>The part of a path after its last slash, and the part before it.\<close>

definition path_basename :: "string \<Rightarrow> string" where
  "path_basename p = rev (takeWhile (\<lambda>c. c \<noteq> CHR ''/'') (rev p))"

definition path_dirname :: "string \<Rightarrow> string" where
  "path_dirname p =
     (if CHR ''/'' \<notin> set p then ''.''
      else let d = rev (tl (dropWhile (\<lambda>c. c \<noteq> CHR ''/'') (rev p)))
           in if d = [] then ''/'' else d)"

text \<open>\<^verbatim>\<open>path.parse(p).name\<close>: the base name without its extension; the extension
  starts at the last dot, unless there is no dot, the last dot is the first character, or
  the base name is \<^verbatim>\<open>..\<close>.\<close>

definition path_parse_name :: "string \<Rightarrow> string" where
  "path_parse_name p =
     (let b = path_basename p;
          ext = rev (takeWhile (\<lambda>c. c \<noteq> CHR ''.'') (rev b));
          stem = take (length b - length ext - 1) b
      in if CHR ''.'' \<notin> set b \<or> stem = [] \<or> b = ''..'' then b else stem)"

section \<open>Effects\<close>

text \<open>
  An error thrown by the program or by a library call is the message of the
  \<^verbatim>\<open>Error\<close> object: the handlers read nothing else.
\<close>

type_synonym 'a result = "string + 'a"

datatype json =
    JNull
  | JBool bool
  | JNumber int
  | JString string
  | JArray "json list"
  | JObject "(string \<times> json) list"

record request =
  req_method :: string
  req_url :: string
  req_headers :: "(string \<times> string) list"
  req_body :: "string option"

text \<open>A response: \<open>resp_text\<close> and \<open>resp_json\<close> are what \<^verbatim>\<open>response.text()\<close> and
  \<^verbatim>\<open>response.json()\<close> resolve to, or the message they reject with.\<close>

record response =
  resp_status :: nat
  resp_statusText :: string
  resp_text :: "string result"
  resp_json :: "json result"

definition resp_ok :: "response \<Rightarrow> bool" where
  "resp_ok r = (200 \<le> resp_status r \<and> resp_status r \<le> 299)"

text \<open>The lines written to the console, one constructor for each call site of
  \<^verbatim>\<open>batchPublish.js\<close>, with the values interpolated there.\<close>

datatype console_line =
    LogNoShapefiles string
  | LogFound nat
  | LogProcessing string string string
  | ErrSkipping string string
  | ErrFailedZip string string
  | LogPublished string
  | ErrFailedFor string string
  | LogFinished
  | ErrFatal string
  | WarnLayerExists string string

text \<open>
  Every call to the file system, the archiver, the clock, the Base64 encoder, the network
  and the console is an event of the trace, in the order the calls are made, whether the
  call succeeds or not:
  \<^item> \<open>EvAccess p\<close>, \<open>EvReaddir p\<close>, \<open>EvMkdtemp prefix\<close>, \<open>EvReadFile p\<close> are
    \<^verbatim>\<open>fsp.access\<close>, \<^verbatim>\<open>fsp.readdir\<close>, \<^verbatim>\<open>fsp.mkdtemp\<close> and \<^verbatim>\<open>fsp.readFile\<close>;
  \<^item> \<open>EvMkdir p\<close> is \<^verbatim>\<open>fsp.mkdir(p, { recursive: true })\<close>;
  \<^item> \<open>EvRm p\<close> is \<^verbatim>\<open>fsp.rm(p, { force: true })\<close> and \<open>EvRmRecursive p\<close> is
    \<^verbatim>\<open>fsp.rm(p, { recursive: true, force: true })\<close>; the program ignores their failure,
    so the environment is not asked for their result;
  \<^item> \<open>EvExecZip z files\<close> is \<^verbatim>\<open>execFile('zip', ['-j', z, ...files], { cwd: '/' })\<close>;
  \<^item> \<open>EvNow\<close> is \<^verbatim>\<open>Date.now()\<close>, \<open>EvBase64 s\<close> is
    \<^verbatim>\<open>Buffer.from(s, 'utf8').toString('base64')\<close>, \<open>EvFetch r\<close> is \<^verbatim>\<open>fetch\<close>.
\<close>

datatype event =
    EvAccess string
  | EvReaddir string
  | EvMkdtemp string
  | EvMkdir string
  | EvRm string
  | EvRmRecursive string
  | EvExecZip string "string list"
  | EvReadFile string
  | EvNow
  | EvBase64 string
  | EvFetch request
  | EvConsole console_line

type_synonym trace = "event list"

text \<open>The directory tree found by the recursive walk: a file, a directory with its
  entries, a directory whose listing is rejected (with the message), or an entry that is
  neither a file nor a directory.\<close>

datatype dirent =
    FileEnt string
  | DirEnt string "dirent list"
  | BadDirEnt string string
  | OtherEnt string

text \<open>The environment answers each call from the trace so far and the call's
  arguments; \<open>Inl\<close> or \<open>Some\<close> of a message is a rejected call.\<close>

record env =
  fs_access :: "trace \<Rightarrow> string \<Rightarrow> string option"
  fs_tree :: "trace \<Rightarrow> string \<Rightarrow> dirent list result"
  fs_readdir :: "trace \<Rightarrow> string \<Rightarrow> string list result"
  fs_mkdtemp :: "trace \<Rightarrow> string \<Rightarrow> string result"
  fs_mkdir :: "trace \<Rightarrow> string \<Rightarrow> string option"
  exec_zip :: "trace \<Rightarrow> string \<Rightarrow> string list \<Rightarrow> string option"
  fs_readFile :: "trace \<Rightarrow> string \<Rightarrow> string result"
  date_now :: "trace \<Rightarrow> nat"
  os_tmpdir :: string
  base64_utf8 :: "string \<Rightarrow> string"
  net_fetch :: "trace \<Rightarrow> request \<Rightarrow> response result"

section \<open>Component grouping\<close>

definition allowedSuffixes :: "string list" where
  "allowedSuffixes =
     [''.shp'', ''.shx'', ''.dbf'', ''.prj'', ''.cpg'', ''.sbn'', ''.sbx'', ''.qix'',
      ''.qpj'', ''.fix'', ''.aih'', ''.ain'', ''.shp.xml'', ''.qmd'']"

text \<open>The loop over the directory entries: \<open>components\<close> is the array built so far.\<close>

fun gather_loop :: "string \<Rightarrow> string \<Rightarrow> string list \<Rightarrow> string list \<Rightarrow> string list" where
  "gather_loop dir baseLower [] components = components"
| "gather_loop dir baseLower (entry # entries) components =
     (let lower = toLowerCase entry;
          suffix = drop (length baseLower) lower
      in if \<not> startsWith lower baseLower then gather_loop dir baseLower entries components
         else if List.member allowedSuffixes suffix
         then gather_loop dir baseLower entries (components @ [path_join dir entry])
         else gather_loop dir baseLower entries components)"

definition required :: "string list" where
  "required = [''.shp'', ''.shx'', ''.dbf'']"

definition missing_message :: "string \<Rightarrow> string \<Rightarrow> string" where
  \<open>missing_message ext shpPath =
     ''Missing required ".'' @ drop 1 ext @ ''" file for shapefile "'' @ shpPath @ ''".''\<close>

text \<open>The loop over the required extensions: the first one that no component ends with
  is reported.\<close>

fun check_required :: "string \<Rightarrow> string list \<Rightarrow> string list \<Rightarrow> string list result" where
  "check_required shpPath [] components = Inr components"
| "check_required shpPath (ext # exts) components =
     (case find (\<lambda>file. endsWith (toLowerCase file) ext) components of
        None \<Rightarrow> Inl (missing_message ext shpPath)
      | Some match \<Rightarrow>
          if match = [] then Inl (missing_message ext shpPath)
          else check_required shpPath exts components)"

definition gatherComponents :: "env \<Rightarrow> string \<Rightarrow> trace \<Rightarrow> string list result \<times> trace" where
  "gatherComponents e shpPath tr =
     (let dir = path_dirname shpPath;
          baseName = path_parse_name shpPath;
          baseLower = toLowerCase baseName
      in case fs_readdir e tr dir of
           Inl msg \<Rightarrow> (Inl msg, tr @ [EvReaddir dir])
         | Inr entries \<Rightarrow>
             (check_required shpPath required (gather_loop dir baseLower entries []),
              tr @ [EvReaddir dir]))"

section \<open>Names, URLs and request bodies\<close>

definition sanitizeName :: "string \<Rightarrow> string" where
  "sanitizeName name = replace_space_runs (trim name)"

text \<open>\<^verbatim>\<open>path.relative(from, to)\<close> for a path \<open>to\<close> below the directory \<open>from\<close>,
  as discovery yields them; the result is only printed.\<close>

definition path_relative :: "string \<Rightarrow> string \<Rightarrow> string" where
  "path_relative from to =
     (let pre = (if from \<noteq> [] \<and> last from = CHR ''/'' then from else from @ ''/'')
      in if startsWith to pre then drop (length pre) to else to)"

definition hex_upper :: "nat \<Rightarrow> char" where
  "hex_upper d = (if d < 10 then char_of (48 + d) else char_of (55 + d))"

definition hex_lower :: "nat \<Rightarrow> char" where
  "hex_lower d = (if d < 10 then char_of (48 + d) else char_of (87 + d))"

definition percent_byte :: "nat \<Rightarrow> string" where
  "percent_byte b = [CHR ''%'', hex_upper (b div 16), hex_upper (b mod 16)]"

definition is_alnum :: "char \<Rightarrow> bool" where
  "is_alnum c =
     (let n = code_unit c
      in (48 \<le> n \<and> n \<le> 57) \<or> (65 \<le> n \<and> n \<le> 90) \<or> (97 \<le> n \<and> n \<le> 122))"

text \<open>The UTF-8 bytes of a code unit below 256.\<close>

definition utf8_bytes :: "char \<Rightarrow> nat list" where
  "utf8_bytes c =
     (let n = code_unit c in if n < 128 then [n] else [192 + n div 64, 128 + n mod 64])"

text \<open>\<^verbatim>\<open>encodeURIComponent\<close>: letters, digits and \<^verbatim>\<open>- _ . ! ~ * ' ( )\<close> are kept,
  every other character is the percent-encoding of its UTF-8 bytes.\<close>

definition encodeURIComponent :: "string \<Rightarrow> string" where
  \<open>encodeURIComponent s =
     concat (map (\<lambda>c. if is_alnum c \<or> c \<in> set ''-_.!~*'()''
                       then [c] else concat (map percent_byte (utf8_bytes c))) s)\<close>

text \<open>\<^verbatim>\<open>URLSearchParams\<close>: \<open>set\<close> replaces the value of a name or appends the pair;
  \<open>toString\<close> is the form-urlencoded serialisation (letters, digits and
  \<^verbatim>\<open>* - . _\<close> kept, a space as \<^verbatim>\<open>+\<close>).\<close>

definition params_set :: "string \<Rightarrow> string \<Rightarrow> (string \<times> string) list \<Rightarrow> (string \<times> string) list" where
  "params_set k v ps =
     (if k \<in> fst ` set ps then map (\<lambda>(k', v'). if k' = k then (k', v) else (k', v')) ps
      else ps @ [(k, v)])"

definition form_encode :: "string \<Rightarrow> string" where
  "form_encode s =
     concat (map (\<lambda>c. if is_alnum c \<or> c \<in> set ''*-._'' then [c]
                       else if c = CHR '' '' then ''+''
                       else concat (map percent_byte (utf8_bytes c))) s)"

fun join_with :: "string \<Rightarrow> string list \<Rightarrow> string" where
  "join_with sep [] = []"
| "join_with sep [x] = x"
| "join_with sep (x # y # ys) = x @ sep @ join_with sep (y # ys)"

definition params_toString :: "(string \<times> string) list \<Rightarrow> string" where
  "params_toString ps = join_with ''&'' (map (\<lambda>(k, v). form_encode k @ ''='' @ form_encode v) ps)"

text \<open>\<^verbatim>\<open>JSON.stringify\<close> of a string.\<close>

definition json_escape_char :: "char \<Rightarrow> string" where
  \<open>json_escape_char c =
     (let n = code_unit c in
      if c = CHR 0x22 then [CHR 0x5C, CHR 0x22]
      else if c = CHR 0x5C then [CHR 0x5C, CHR 0x5C]
      else if n = 8 then [CHR 0x5C, CHR ''b'']
      else if n = 12 then [CHR 0x5C, CHR ''f'']
      else if n = 10 then [CHR 0x5C, CHR ''n'']
      else if n = 13 then [CHR 0x5C, CHR ''r'']
      else if n = 9 then [CHR 0x5C, CHR ''t'']
      else if n < 32 then [CHR 0x5C, CHR ''u'', CHR ''0'', CHR ''0'', hex_lower (n div 16), hex_lower (n mod 16)]
      else [c])\<close>

definition json_quote :: "string \<Rightarrow> string" where
  "json_quote s = [CHR 0x22] @ concat (map json_escape_char s) @ [CHR 0x22]"

text \<open>\<^verbatim>\<open>JSON.stringify(featurePayload)\<close>.\<close>

definition featurePayload :: "string \<Rightarrow> string \<Rightarrow> string" where
  \<open>featurePayload layerName nativeName =
     ''{"featureType":{"name":'' @ json_quote layerName @ '',"nativeName":'' @ json_quote nativeName
       @ '',"enabled":true}}''\<close>

definition buildAuthHeader :: "env \<Rightarrow> string \<Rightarrow> string \<Rightarrow> trace \<Rightarrow> string \<times> trace" where
  "buildAuthHeader e username password tr =
     (let credentials = username @ '':'' @ password
      in (''Basic '' @ base64_utf8 e credentials, tr @ [EvBase64 credentials]))"

section \<open>Packaging\<close>

text \<open>The temporary directory is made if it is missing, a file left at the bundle's path is
  removed, and the archiver writes the bundle.\<close>

definition createZip :: "env \<Rightarrow> string list \<Rightarrow> string \<Rightarrow> string \<Rightarrow> trace \<Rightarrow> string result \<times> trace" where
  "createZip e componentPaths tempDir name tr =
     (case fs_mkdir e tr tempDir of
        Some msg \<Rightarrow> (Inl msg, tr @ [EvMkdir tempDir])
      | None \<Rightarrow>
          (let zipPath = path_join tempDir (name @ ''.zip'');
               tr2 = tr @ [EvMkdir tempDir, EvRm zipPath]
           in case exec_zip e tr2 zipPath componentPaths of
                Some msg \<Rightarrow> (Inl msg, tr2 @ [EvExecZip zipPath componentPaths])
              | None \<Rightarrow> (Inr zipPath, tr2 @ [EvExecZip zipPath componentPaths])))"

section \<open>Upload\<close>

definition upload_params :: "bool \<Rightarrow> (string \<times> string) list" where
  "upload_params overwrite =
     (let params = params_set ''configure'' ''none'' (params_set ''charset'' ''UTF-8'' [])
      in if overwrite then params_set ''update'' ''overwrite'' params else params)"

definition upload_target :: "string \<Rightarrow> string \<Rightarrow> string \<Rightarrow> bool \<Rightarrow> string" where
  "upload_target geoserverUrl workspace storeName overwrite =
     geoserverUrl @ ''/rest/workspaces/'' @ encodeURIComponent workspace @ ''/datastores/''
       @ encodeURIComponent storeName @ ''/file.shp?'' @ params_toString (upload_params overwrite)"

definition upload_request :: "string \<Rightarrow> string \<Rightarrow> string \<Rightarrow> string \<Rightarrow> bool \<Rightarrow> string \<Rightarrow> request" where
  "upload_request geoserverUrl workspace storeName authHeader overwrite zipBuffer =
     \<lparr>req_method = ''PUT'',
      req_url = upload_target geoserverUrl workspace storeName overwrite,
      req_headers = [(''Content-Type'', ''application/zip''), (''Authorization'', authHeader),
                     (''Content-Length'', show_nat (length zipBuffer))],
      req_body = Some zipBuffer\<rparr>"

definition status_message :: "string \<Rightarrow> response \<Rightarrow> string \<Rightarrow> string" where
  "status_message what response body =
     what @ ''. Status '' @ show_nat (resp_status response) @ '' '' @ resp_statusText response
       @ ''. Response: '' @ body"

definition upload_error :: "string \<Rightarrow> response \<Rightarrow> string \<Rightarrow> string" where
  \<open>upload_error storeName response body =
     status_message (''Upload failed for datastore "'' @ storeName @ ''"'') response body\<close>

definition uploadDatastoreZip ::
  "env \<Rightarrow> string \<Rightarrow> string \<Rightarrow> string \<Rightarrow> string \<Rightarrow> string \<Rightarrow> bool \<Rightarrow> trace \<Rightarrow> unit result \<times> trace" where
  "uploadDatastoreZip e geoserverUrl workspace storeName zipPath authHeader overwrite tr =
     (case fs_readFile e tr zipPath of
        Inl msg \<Rightarrow> (Inl msg, tr @ [EvReadFile zipPath])
      | Inr zipBuffer \<Rightarrow>
          (let req = upload_request geoserverUrl workspace storeName authHeader overwrite zipBuffer;
               tr1 = tr @ [EvReadFile zipPath]
           in case net_fetch e tr1 req of
                Inl msg \<Rightarrow> (Inl msg, tr1 @ [EvFetch req])
              | Inr response \<Rightarrow>
                  if \<not> resp_ok response
                  then (case resp_text response of
                          Inl msg \<Rightarrow> (Inl msg, tr1 @ [EvFetch req])
                        | Inr body \<Rightarrow> (Inl (upload_error storeName response body), tr1 @ [EvFetch req]))
                  else (Inr (), tr1 @ [EvFetch req])))"

section \<open>Publishing\<close>

definition publish_url :: "string \<Rightarrow> string \<Rightarrow> string \<Rightarrow> string" where
  "publish_url geoserverUrl workspace storeName =
     geoserverUrl @ ''/rest/workspaces/'' @ encodeURIComponent workspace @ ''/datastores/''
       @ encodeURIComponent storeName @ ''/featuretypes?recalculate=nativebbox,latlonbbox''"

definition adjust_url :: "string \<Rightarrow> string \<Rightarrow> string \<Rightarrow> string \<Rightarrow> string" where
  "adjust_url geoserverUrl workspace storeName layerName =
     geoserverUrl @ ''/rest/workspaces/'' @ encodeURIComponent workspace @ ''/datastores/''
       @ encodeURIComponent storeName @ ''/featuretypes/'' @ encodeURIComponent layerName
       @ ''?recalculate=nativebbox,latlonbbox''"

definition json_request :: "string \<Rightarrow> string \<Rightarrow> string \<Rightarrow> string \<Rightarrow> request" where
  "json_request method url authHeader body =
     \<lparr>req_method = method, req_url = url,
      req_headers = [(''Content-Type'', ''application/json''), (''Authorization'', authHeader)],
      req_body = Some body\<rparr>"

definition update_error :: "string \<Rightarrow> response \<Rightarrow> string \<Rightarrow> string" where
  \<open>update_error layerName response body =
     status_message (''Failed to update existing layer "'' @ layerName @ ''"'') response body\<close>

definition publish_error :: "string \<Rightarrow> response \<Rightarrow> string \<Rightarrow> string" where
  \<open>publish_error layerName response body =
     status_message (''Failed to publish layer "'' @ layerName @ ''"'') response body\<close>

definition publishLayer ::
  "env \<Rightarrow> string \<Rightarrow> string \<Rightarrow> string \<Rightarrow> string \<Rightarrow> string \<Rightarrow> string \<Rightarrow> bool \<Rightarrow> trace
     \<Rightarrow> unit result \<times> trace" where
  "publishLayer e geoserverUrl workspace storeName layerName nativeName authHeader overwrite tr =
     (let body = featurePayload layerName nativeName;
          post = json_request ''POST'' (publish_url geoserverUrl workspace storeName) authHeader body;
          tr1 = tr @ [EvFetch post]
      in case net_fetch e tr post of
           Inl msg \<Rightarrow> (Inl msg, tr1)
         | Inr response \<Rightarrow>
             if resp_ok response then (Inr (), tr1)
             else if resp_status response = 409 then
               (if \<not> overwrite
                then (Inr (), tr1 @ [EvConsole (WarnLayerExists layerName workspace)])
                else
                  (let put = json_request ''PUT''
                               (adjust_url geoserverUrl workspace storeName layerName) authHeader body;
                       tr2 = tr1 @ [EvFetch put]
                   in case net_fetch e tr1 put of
                        Inl msg \<Rightarrow> (Inl msg, tr2)
                      | Inr adjustResponse \<Rightarrow>
                          if \<not> resp_ok adjustResponse
                          then (case resp_text adjustResponse of
                                  Inl msg \<Rightarrow> (Inl msg, tr2)
                                | Inr body' \<Rightarrow>
                                    (Inl (update_error layerName adjustResponse body'), tr2))
                          else (Inr (), tr2)))
             else (case resp_text response of
                     Inl msg \<Rightarrow> (Inl msg, tr1)
                   | Inr errorText \<Rightarrow> (Inl (publish_error layerName response errorText), tr1)))"

section \<open>Discovery\<close>

text \<open>The recursive walk, over the tree the environment reports for the root: every
  directory entered is one \<^verbatim>\<open>readdir\<close> call, \<open>found\<close> is the array of paths pushed so
  far, and a rejected listing ends the walk.\<close>

fun walk :: "string \<Rightarrow> dirent list \<Rightarrow> string list \<Rightarrow> trace \<Rightarrow> string list result \<times> trace" where
  "walk dir [] found tr = (Inr found, tr)"
| "walk dir (DirEnt name sub # entries) found tr =
     (case walk (path_join dir name) sub found (tr @ [EvReaddir (path_join dir name)]) of
        (Inl msg, tr') \<Rightarrow> (Inl msg, tr')
      | (Inr found', tr') \<Rightarrow> walk dir entries found' tr')"
| "walk dir (BadDirEnt name msg # entries) found tr =
     (Inl msg, tr @ [EvReaddir (path_join dir name)])"
| "walk dir (FileEnt name # entries) found tr =
     (if endsWith (toLowerCase name) ''.shp''
      then walk dir entries (found @ [path_join dir name]) tr
      else walk dir entries found tr)"
| "walk dir (OtherEnt name # entries) found tr = walk dir entries found tr"

definition collectShapefiles :: "env \<Rightarrow> string \<Rightarrow> trace \<Rightarrow> string list result \<times> trace" where
  "collectShapefiles e rootDir tr =
     (case fs_tree e tr rootDir of
        Inl msg \<Rightarrow> (Inl msg, tr @ [EvReaddir rootDir])
      | Inr entries \<Rightarrow> walk rootDir entries [] (tr @ [EvReaddir rootDir]))"

section \<open>The listing utility\<close>

text \<open>Reading a property of a value that came from \<^verbatim>\<open>JSON.parse\<close>: \<open>None\<close> is
  \<^verbatim>\<open>undefined\<close>. Of a repeated key the last occurrence counts; the names read here
  (\<^verbatim>\<open>featureTypes\<close>, \<^verbatim>\<open>featureType\<close>, \<^verbatim>\<open>name\<close>, \<^verbatim>\<open>href\<close>, \<^verbatim>\<open>title\<close>) are
  no properties of strings, numbers, booleans or arrays.\<close>

fun get_prop :: "json \<Rightarrow> string \<Rightarrow> json option" where
  "get_prop (JObject kvs) k = map_of (rev kvs) k"
| "get_prop v k = None"

text \<open>Optional chaining \<^verbatim>\<open>v?.k\<close>.\<close>

definition optional_prop :: "json option \<Rightarrow> string \<Rightarrow> json option" where
  "optional_prop v k = (case v of None \<Rightarrow> None | Some JNull \<Rightarrow> None | Some j \<Rightarrow> get_prop j k)"

fun truthy :: "json \<Rightarrow> bool" where
  "truthy JNull = False"
| "truthy (JBool b) = b"
| "truthy (JNumber n) = (n \<noteq> 0)"
| "truthy (JString s) = (s \<noteq> [])"
| "truthy (JArray xs) = True"
| "truthy (JObject kvs) = True"

text \<open>The normalisation of the payload at the end of \<^verbatim>\<open>fetchFeatureTypes\<close>.\<close>

definition featureType_list :: "json \<Rightarrow> json list" where
  "featureType_list payload =
     (let raw = (case optional_prop (optional_prop (Some payload) ''featureTypes'') ''featureType'' of
                   None \<Rightarrow> JArray []
                 | Some JNull \<Rightarrow> JArray []
                 | Some v \<Rightarrow> v)
      in case raw of
           JArray xs \<Rightarrow> xs
         | _ \<Rightarrow> if truthy raw then [raw] else [])"

definition featuretypes_url :: "string \<Rightarrow> string \<Rightarrow> string" where
  "featuretypes_url geoserverUrl workspace =
     (let baseUrl = geoserverUrl @ ''/rest/workspaces/'' @ encodeURIComponent workspace
                      @ ''/featuretypes.json''
      in baseUrl @ ''?count=10000&startIndex=0'')"

definition featuretypes_request :: "string \<Rightarrow> string \<Rightarrow> string \<Rightarrow> request" where
  "featuretypes_request geoserverUrl workspace authHeader =
     \<lparr>req_method = ''GET'', req_url = featuretypes_url geoserverUrl workspace,
      req_headers = [(''Accept'', ''application/json''), (''Authorization'', authHeader)],
      req_body = None\<rparr>"

definition fetch_error :: "string \<Rightarrow> response \<Rightarrow> string \<Rightarrow> string" where
  \<open>fetch_error workspace response body =
     status_message (''Failed to fetch feature types for workspace "'' @ workspace @ ''"'')
       response body\<close>

definition fetchFeatureTypes ::
  "env \<Rightarrow> string \<Rightarrow> string \<Rightarrow> string \<Rightarrow> trace \<Rightarrow> json list result \<times> trace" where
  "fetchFeatureTypes e geoserverUrl workspace authHeader tr =
     (let req = featuretypes_request geoserverUrl workspace authHeader;
          tr1 = tr @ [EvFetch req]
      in case net_fetch e tr req of
           Inl msg \<Rightarrow> (Inl msg, tr1)
         | Inr response \<Rightarrow>
             if resp_status response = 404 then (Inr [], tr1)
             else if \<not> resp_ok response
             then (case resp_text response of
                     Inl msg \<Rightarrow> (Inl msg, tr1)
                   | Inr body \<Rightarrow> (Inl (fetch_error workspace response body), tr1))
             else (case resp_json response of
                     Inl msg \<Rightarrow> (Inl msg, tr1)
                   | Inr payload \<Rightarrow> (Inr (featureType_list payload), tr1)))"

text \<open>The URL class and \<^verbatim>\<open>decodeURIComponent\<close> are taken from the platform:
  \<open>url_pathname\<close> is \<^verbatim>\<open>new URL(s).pathname\<close>, \<open>url_with_params\<close> is the string of
  \<^verbatim>\<open>new URL(s)\<close> after its search parameters were set; each may reject its input.\<close>

record url_lib =
  url_pathname :: "string \<Rightarrow> string result"
  url_with_params :: "string \<Rightarrow> (string \<times> string) list \<Rightarrow> string result"
  decodeURIComponent :: "string \<Rightarrow> string result"

text \<open>\<^verbatim>\<open>s.replace(/\.[^.]+$/u, '')\<close>: a last dot that is followed by at least one
  character is removed with what follows it.\<close>

definition strip_extension :: "string \<Rightarrow> string" where
  "strip_extension s =
     (let ext = rev (takeWhile (\<lambda>c. c \<noteq> CHR ''.'') (rev s))
      in if CHR ''.'' \<in> set s \<and> ext \<noteq> [] then take (length s - length ext - 1) s else s)"

definition layer_from_href :: "url_lib \<Rightarrow> json \<Rightarrow> string result" where
  "layer_from_href u featureType =
     (case get_prop featureType ''href'' of
        Some (JString href) \<Rightarrow>
          if length href > 0
          then (case url_pathname u href of
                  Inl msg \<Rightarrow> Inl msg
                | Inr pathname \<Rightarrow>
                    (let lastSegment = path_basename pathname;
                         withoutExt = strip_extension lastSegment
                     in if withoutExt \<noteq> [] then decodeURIComponent u withoutExt
                        else Inl ''Unable to determine layer name from feature type payload.''))
          else Inl ''Unable to determine layer name from feature type payload.''
      | _ \<Rightarrow> Inl ''Unable to determine layer name from feature type payload.'')"

text \<open>Reading \<^verbatim>\<open>name\<close> of \<^verbatim>\<open>null\<close> throws; a name that is a non-empty string is
  the layer name; otherwise the name is taken from \<^verbatim>\<open>href\<close>.\<close>

definition extractLayerName :: "url_lib \<Rightarrow> json \<Rightarrow> string result" where
  \<open>extractLayerName u featureType =
     (if featureType = JNull then Inl ''Cannot read properties of null (reading 'name')''
      else case get_prop featureType ''name'' of
             Some (JString name) \<Rightarrow> if name \<noteq> [] then Inr name else layer_from_href u featureType
           | _ \<Rightarrow> layer_from_href u featureType)\<close>

definition buildWfsUrl :: "url_lib \<Rightarrow> string \<Rightarrow> string \<Rightarrow> string \<Rightarrow> nat \<Rightarrow> string result" where
  "buildWfsUrl u geoserverUrl workspace layerName maxFeatures =
     url_with_params u (geoserverUrl @ ''/wfs'')
       (params_set ''maxFeatures'' (show_nat maxFeatures)
         (params_set ''outputFormat'' ''application/json''
           (params_set ''typeNames'' (workspace @ '':'' @ layerName)
             (params_set ''request'' ''GetFeature''
               (params_set ''version'' ''2.0.0''
                 (params_set ''service'' ''WFS'' []))))))"

record wfs_entry =
  layer :: string
  wfsUrl :: string
  title :: "string option"

text \<open>The callback of \<^verbatim>\<open>featureTypes.map\<close>, and the map itself: the first element on
  which the callback throws ends it.\<close>

definition wfs_entry_of :: "url_lib \<Rightarrow> string \<Rightarrow> string \<Rightarrow> nat \<Rightarrow> json \<Rightarrow> wfs_entry result" where
  "wfs_entry_of u geoserverUrl workspace maxFeatures featureType =
     (case extractLayerName u featureType of
        Inl msg \<Rightarrow> Inl msg
      | Inr layerName \<Rightarrow>
          (let title = (case get_prop featureType ''title'' of
                          Some (JString t) \<Rightarrow> Some t | _ \<Rightarrow> None);
               layerId = workspace @ '':'' @ layerName
           in case buildWfsUrl u geoserverUrl workspace layerName maxFeatures of
                Inl msg \<Rightarrow> Inl msg
              | Inr url \<Rightarrow> Inr \<lparr>layer = layerId, wfsUrl = url, title = title\<rparr>))"

fun map_result :: "('a \<Rightarrow> 'b result) \<Rightarrow> 'a list \<Rightarrow> 'b list result" where
  "map_result f [] = Inr []"
| "map_result f (x # xs) =
     (case f x of
        Inl msg \<Rightarrow> Inl msg
      | Inr y \<Rightarrow> (case map_result f xs of Inl msg \<Rightarrow> Inl msg | Inr ys \<Rightarrow> Inr (y # ys)))"

definition getPublishedShapeWfsUrls ::
  "env \<Rightarrow> url_lib \<Rightarrow> string \<Rightarrow> string \<Rightarrow> string \<Rightarrow> string \<Rightarrow> nat \<Rightarrow> trace
     \<Rightarrow> wfs_entry list result \<times> trace" where
  "getPublishedShapeWfsUrls e u geoserverUrl workspace username password maxFeatures tr =
     (case buildAuthHeader e username password tr of
        (authHeader, tr1) \<Rightarrow>
          (case fetchFeatureTypes e geoserverUrl workspace authHeader tr1 of
             (Inl msg, tr2) \<Rightarrow> (Inl msg, tr2)
           | (Inr featureTypes, tr2) \<Rightarrow>
               (map_result (wfs_entry_of u geoserverUrl workspace maxFeatures) featureTypes, tr2)))"

section \<open>The batch driver\<close>

record options =
  directory :: string
  geoserverUrl :: string
  workspace :: string
  username :: string
  password :: string
  storePrefix :: string
  layerPrefix :: string
  overwrite :: bool

text \<open>The \<^verbatim>\<open>try\<close> block around upload and publish, with the names the loop computed.\<close>

definition upload_and_publish ::
  "env \<Rightarrow> options \<Rightarrow> string \<Rightarrow> string \<Rightarrow> string \<Rightarrow> string \<Rightarrow> string \<Rightarrow> trace \<Rightarrow> unit result \<times> trace" where
  "upload_and_publish e opts authHeader storeName layerName rawBaseName zipPath tr =
     (case uploadDatastoreZip e (geoserverUrl opts) (workspace opts) storeName zipPath authHeader
             (overwrite opts) tr of
        (Inl msg, tr1) \<Rightarrow> (Inl msg, tr1)
      | (Inr _, tr1) \<Rightarrow>
          (case publishLayer e (geoserverUrl opts) (workspace opts) storeName layerName rawBaseName
                  authHeader (overwrite opts) tr1 of
             (Inl msg, tr2) \<Rightarrow> (Inl msg, tr2)
           | (Inr _, tr2) \<Rightarrow> (Inr (), tr2 @ [EvConsole (LogPublished layerName)])))"

text \<open>The same block with its \<^verbatim>\<open>catch\<close>, which prints the message of the error.\<close>

definition try_upload_and_publish ::
  "env \<Rightarrow> options \<Rightarrow> string \<Rightarrow> string \<Rightarrow> string \<Rightarrow> string \<Rightarrow> string \<Rightarrow> string \<Rightarrow> trace \<Rightarrow> trace" where
  "try_upload_and_publish e opts authHeader relative storeName layerName rawBaseName zipPath tr =
     (case upload_and_publish e opts authHeader storeName layerName rawBaseName zipPath tr of
        (Inl msg, tr') \<Rightarrow> tr' @ [EvConsole (ErrFailedFor relative msg)]
      | (Inr _, tr') \<Rightarrow> tr')"

text \<open>One iteration of the loop over the discovered files; the last step is the
  \<^verbatim>\<open>finally\<close> block.\<close>

definition main_loop_body :: "env \<Rightarrow> options \<Rightarrow> string \<Rightarrow> string \<Rightarrow> string \<Rightarrow> trace \<Rightarrow> trace" where
  "main_loop_body e opts authHeader tempDir shpPath tr =
     (let rawBaseName = path_parse_name shpPath;
          baseName = trim rawBaseName;
          relative = path_relative (directory opts) shpPath;
          storeName = storePrefix opts @ sanitizeName baseName;
          layerName = layerPrefix opts @ sanitizeName baseName;
          tr1 = tr @ [EvConsole (LogProcessing relative storeName layerName)]
      in case gatherComponents e shpPath tr1 of
           (Inl msg, tr2) \<Rightarrow> tr2 @ [EvConsole (ErrSkipping relative msg)]
         | (Inr componentPaths, tr2) \<Rightarrow>
             (case createZip e componentPaths tempDir (storeName @ ''-'' @ show_nat (date_now e tr2))
                     (tr2 @ [EvNow]) of
                (Inl msg, tr3) \<Rightarrow> tr3 @ [EvConsole (ErrFailedZip relative msg)]
              | (Inr zipPath, tr3) \<Rightarrow>
                  (let tr4 = try_upload_and_publish e opts authHeader relative storeName layerName
                               rawBaseName zipPath tr3
                   in if zipPath \<noteq> [] then tr4 @ [EvRm zipPath] else tr4)))"

fun main_loop :: "env \<Rightarrow> options \<Rightarrow> string \<Rightarrow> string \<Rightarrow> string list \<Rightarrow> trace \<Rightarrow> trace" where
  "main_loop e opts authHeader tempDir [] tr = tr"
| "main_loop e opts authHeader tempDir (shpPath # shapefiles) tr =
     main_loop e opts authHeader tempDir shapefiles
       (main_loop_body e opts authHeader tempDir shpPath tr)"

text \<open>The outer \<^verbatim>\<open>catch\<close>: the message is printed and the exit code is 1.\<close>

definition fatal :: "string \<Rightarrow> trace \<Rightarrow> nat \<times> trace" where
  "fatal msg tr = (1, tr @ [EvConsole (ErrFatal msg)])"

text \<open>The whole run, from the result of \<^verbatim>\<open>parseArgs\<close>; the value is the exit code
  and the trace.\<close>

definition main :: "env \<Rightarrow> options result \<Rightarrow> trace \<Rightarrow> nat \<times> trace" where
  "main e parsed tr =
     (case parsed of
        Inl msg \<Rightarrow> fatal msg tr
      | Inr opts \<Rightarrow>
          (case fs_access e tr (directory opts) of
             Some msg \<Rightarrow> fatal msg (tr @ [EvAccess (directory opts)])
           | None \<Rightarrow>
               (case collectShapefiles e (directory opts) (tr @ [EvAccess (directory opts)]) of
                  (Inl msg, tr1) \<Rightarrow> fatal msg tr1
                | (Inr shapefiles, tr1) \<Rightarrow>
                    if length shapefiles = 0
                    then (0, tr1 @ [EvConsole (LogNoShapefiles (directory opts))])
                    else
                      (case buildAuthHeader e (username opts) (password opts) tr1 of
                         (authHeader, tr2) \<Rightarrow>
                           (let template = path_join (os_tmpdir e) ''geoserver-shp-''
                            in case fs_mkdtemp e tr2 template of
                                 Inl msg \<Rightarrow> fatal msg (tr2 @ [EvMkdtemp template])
                               | Inr tempDir \<Rightarrow>
                                   (let tr3 = tr2 @ [EvMkdtemp template,
                                                     EvConsole (LogFound (length shapefiles))];
                                        tr4 = main_loop e opts authHeader tempDir shapefiles tr3
                                    in (0, tr4 @ [EvRmRecursive tempDir, EvConsole LogFinished])))))))"

text \<open>The names an iteration computes for a discovered file, and the line it prints
  first.\<close>

definition relative_of :: "options \<Rightarrow> string \<Rightarrow> string" where
  "relative_of opts shpPath = path_relative (directory opts) shpPath"

definition storeName_of :: "options \<Rightarrow> string \<Rightarrow> string" where
  "storeName_of opts shpPath = storePrefix opts @ sanitizeName (trim (path_parse_name shpPath))"

definition layerName_of :: "options \<Rightarrow> string \<Rightarrow> string" where
  "layerName_of opts shpPath = layerPrefix opts @ sanitizeName (trim (path_parse_name shpPath))"

definition processing_line :: "options \<Rightarrow> string \<Rightarrow> console_line" where
  "processing_line opts shpPath =
     LogProcessing (relative_of opts shpPath) (storeName_of opts shpPath) (layerName_of opts shpPath)"

section \<open>The wording of the specification for derived names\<close>

text \<open>
  The specification describes a derived name as the base name with surrounding white space
  trimmed and every internal run of white space collapsed to one underscore. Following
  these words, not the code: the name is cut into its maximal runs of characters that are
  no white space, and the runs are joined with underscores. \<open>cur\<close> is the run being read.
\<close>

fun space_words_from :: "string \<Rightarrow> string \<Rightarrow> string list" where
  "space_words_from cur [] = (if cur = [] then [] else [cur])"
| "space_words_from cur (c # cs) =
     (if is_space c
      then (if cur = [] then space_words_from [] cs else cur # space_words_from [] cs)
      else space_words_from (cur @ [c]) cs)"

definition space_words :: "string \<Rightarrow> string list" where
  "space_words s = space_words_from [] s"

definition collapsed_name :: "string \<Rightarrow> string" where
  "collapsed_name s = join_with ''_'' (space_words s)"

text \<open>Dropping white space at the end only, for the proofs about \<open>trim\<close>.\<close>

definition rtrim :: "string \<Rightarrow> string" where
  "rtrim s = rev (dropWhile is_space (rev s))"

section \<open>Sample environments\<close>

text \<open>An environment in which every file-system call succeeds on an empty directory and
  every request fails in transport; the other samples change single answers of it.\<close>

definition quiet_env :: env where
  "quiet_env =
     \<lparr>fs_access = (\<lambda>tr p. None),
      fs_tree = (\<lambda>tr p. Inr []),
      fs_readdir = (\<lambda>tr p. Inr []),
      fs_mkdtemp = (\<lambda>tr p. Inr (p @ ''abc'')),
      fs_mkdir = (\<lambda>tr p. None),
      exec_zip = (\<lambda>tr z cs. None),
      fs_readFile = (\<lambda>tr p. Inr ''PK''),
      date_now = (\<lambda>tr. 17),
      os_tmpdir = ''/tmp'',
      base64_utf8 = (\<lambda>s. ''dTpw''),
      net_fetch = (\<lambda>tr r. Inl ''fetch failed'')\<rparr>"

definition lake_env :: env where
  "lake_env = quiet_env\<lparr>fs_readdir := (\<lambda>tr p. Inr [''Lake.SHP'', ''lake.shx'', ''lake.dbf'', ''lake_2.shp''])\<rparr>"

definition permuted_lake_env :: env where
  "permuted_lake_env =
     quiet_env\<lparr>fs_readdir := (\<lambda>tr p. Inr [''lake.dbf'', ''lake_2.shp'', ''lake.shx'', ''Lake.SHP''])\<rparr>"

definition shx_env :: env where
  "shx_env = quiet_env\<lparr>fs_readdir := (\<lambda>tr p. Inr [''lake.shp'', ''lake.shx''])\<rparr>"

definition sample_options :: options where
  "sample_options =
     \<lparr>directory = ''/d'', geoserverUrl = ''http://h/g'', workspace = ''ws'', username = ''u'',
      password = ''p'', storePrefix = ''s_'', layerPrefix = ''l_'', overwrite = True\<rparr>"

definition conflict_env :: env where
  "conflict_env =
     quiet_env\<lparr>net_fetch := (\<lambda>tr r.
        if req_method r = ''POST''
        then Inr \<lparr>resp_status = 409, resp_statusText = ''Conflict'',
                  resp_text = Inr ''exists'', resp_json = Inl ''no json''\<rparr>
        else Inr \<lparr>resp_status = 500, resp_statusText = ''Server Error'',
                  resp_text = Inr ''boom'', resp_json = Inl ''no json''\<rparr>)\<rparr>"

definition accepting_env :: "string list \<Rightarrow> env" where
  "accepting_env listing =
     quiet_env\<lparr>fs_tree := (\<lambda>tr p. Inr (map FileEnt listing)),
               fs_readdir := (\<lambda>tr p. Inr listing),
               net_fetch := (\<lambda>tr r.
                 Inr \<lparr>resp_status = (if req_method r = ''POST'' then 201 else 200),
                      resp_statusText = ''OK'', resp_text = Inr [], resp_json = Inl ''no json''\<rparr>)\<rparr>"

definition parcels_env :: env where
  "parcels_env = accepting_env [''My Parcels.shp'', ''My Parcels.shx'', ''My Parcels.dbf'']"

definition spaced_env :: env where
  "spaced_env = accepting_env ['' lake.shp'', '' lake.shx'', '' lake.dbf'']"

text \<open>Samples for the listing utility: an environment that answers every request with
  the given response, three responses, and a URL library that accepts every string.\<close>

definition listing_env :: "response \<Rightarrow> env" where
  "listing_env response = quiet_env\<lparr>net_fetch := (\<lambda>tr r. Inr response)\<rparr>"

definition not_found :: response where
  "not_found = \<lparr>resp_status = 404, resp_statusText = ''Not Found'',
                 resp_text = Inr ''No such workspace'', resp_json = Inl ''no json''\<rparr>"

definition server_error :: response where
  "server_error = \<lparr>resp_status = 500, resp_statusText = ''Server Error'',
                    resp_text = Inr ''boom'', resp_json = Inl ''no json''\<rparr>"

definition roads :: json where
  "roads = JObject [(''name'', JString ''roads''), (''href'', JString ''http://h/g/roads.json'')]"

definition single_payload :: response where
  "single_payload =
     \<lparr>resp_status = 200, resp_statusText = ''OK'', resp_text = Inr [],
      resp_json = Inr (JObject [(''featureTypes'', JObject [(''featureType'', roads)])])\<rparr>"

definition empty_payload :: response where
  "empty_payload =
     \<lparr>resp_status = 200, resp_statusText = ''OK'', resp_text = Inr [],
      resp_json = Inr (JObject [(''featureTypes'', JString [])])\<rparr>"

definition plain_urls :: url_lib where
  "plain_urls = \<lparr>url_pathname = Inr, url_with_params = (\<lambda>s ps. Inr s), decodeURIComponent = Inr\<rparr>"

section \<open>Evaluation on literals\<close>

lemmas char_eval = code_unit_def char_of_def bit_0

lemmas string_eval = toLowerCase_def lower_char_def char_eval startsWith_def endsWith_def

lemmas path_eval = path_parse_name_def path_basename_def path_dirname_def path_join_def

lemmas number_eval = show_nat.simps digit_char_def char_eval

section \<open>Properties of component grouping\<close>

lemma startsWith_drop_iff:
  "(startsWith s p \<and> drop (length p) s = suf) = (s = p @ suf)"
  unfolding startsWith_def
  by (metis append_eq_conv_conj append_take_drop_id)

lemma gather_loop_exec:
  "gather_loop dir bl entries acc =
     acc @ map (path_join dir)
             (filter (\<lambda>entry. startsWith (toLowerCase entry) bl \<and>
                        drop (length bl) (toLowerCase entry) \<in> set allowedSuffixes) entries)"
  by (induction entries arbitrary: acc) (simp_all add: Let_def)

lemma component_iff:
  "(startsWith lower bl \<and> drop (length bl) lower \<in> set allowedSuffixes)
     = (\<exists>suffix. suffix \<in> set allowedSuffixes \<and> lower = bl @ suffix)"
proof
  assume "startsWith lower bl \<and> drop (length bl) lower \<in> set allowedSuffixes"
  then have "drop (length bl) lower \<in> set allowedSuffixes \<and> lower = bl @ drop (length bl) lower"
    using startsWith_drop_iff [of lower bl "drop (length bl) lower"] by simp
  then show "\<exists>suffix. suffix \<in> set allowedSuffixes \<and> lower = bl @ suffix" ..
next
  assume "\<exists>suffix. suffix \<in> set allowedSuffixes \<and> lower = bl @ suffix"
  then obtain suffix where "suffix \<in> set allowedSuffixes" "lower = bl @ suffix" by blast
  then show "startsWith lower bl \<and> drop (length bl) lower \<in> set allowedSuffixes"
    by (simp add: startsWith_def)
qed

lemma gather_loop_eq:
  "gather_loop dir bl entries acc =
     acc @ map (path_join dir)
             (filter (\<lambda>entry. \<exists>suffix. suffix \<in> set allowedSuffixes \<and> toLowerCase entry = bl @ suffix) entries)"
  unfolding gather_loop_exec component_iff ..

lemma path_join_inject: "d \<noteq> [] \<Longrightarrow> path_join d a = path_join d b \<Longrightarrow> a = b"
  by (auto simp: path_join_def split: if_splits)

lemma path_dirname_nonempty: "path_dirname p \<noteq> []"
  by (simp add: path_dirname_def Let_def)

lemma check_required_cases:
  "check_required shpPath exts comps = Inr comps \<or>
   (\<exists>ext \<in> set exts. check_required shpPath exts comps = Inl (missing_message ext shpPath))"
  by (induction exts) (auto split: option.splits)

lemma gatherComponents_Inr:
  assumes "fs_readdir e tr (path_dirname shpPath) = Inr entries"
      and "fst (gatherComponents e shpPath tr) = Inr comps"
    shows "comps = gather_loop (path_dirname shpPath) (toLowerCase (path_parse_name shpPath)) entries []"
  using assms check_required_cases [of shpPath required "gather_loop (path_dirname shpPath) (toLowerCase (path_parse_name shpPath)) entries []"]
  by (auto simp: gatherComponents_def Let_def)

text \<open>
  Claim C2. When grouping succeeds, the components are the directory entries, in listing
  order and joined to the directory, whose lower-cased name is the lower-cased base name
  of the primary file followed by exactly one entry of the allow-list; an entry whose
  lower-cased name continues the base name with anything that is not on the allow-list
  (a longer base name such as \<^verbatim>\<open>lake_2.shp\<close> beside \<^verbatim>\<open>lake.shp\<close>) is no component.
\<close>

theorem gatherComponents_exact_suffix:
  assumes "fs_readdir e tr (path_dirname shpPath) = Inr entries"
      and "fst (gatherComponents e shpPath tr) = Inr comps"
    shows "comps = map (path_join (path_dirname shpPath))
                     (filter (\<lambda>entry. \<exists>suffix. suffix \<in> set allowedSuffixes \<and>
                                  toLowerCase entry = toLowerCase (path_parse_name shpPath) @ suffix)
                        entries)
           \<and> (\<forall>entry rest. entry \<in> set entries \<and>
                  toLowerCase entry = toLowerCase (path_parse_name shpPath) @ rest \<and>
                  rest \<notin> set allowedSuffixes
                \<longrightarrow> path_join (path_dirname shpPath) entry \<notin> set comps)"
proof -
  let ?dir = "path_dirname shpPath" and ?bl = "toLowerCase (path_parse_name shpPath)"
  have eq: "comps = map (path_join ?dir)
              (filter (\<lambda>entry. \<exists>suffix. suffix \<in> set allowedSuffixes \<and> toLowerCase entry = ?bl @ suffix) entries)"
    using gatherComponents_Inr [OF assms] by (simp add: gather_loop_eq)
  have "path_join ?dir entry \<notin> set comps"
    if "toLowerCase entry = ?bl @ rest" "rest \<notin> set allowedSuffixes" for entry rest
  proof
    assume "path_join ?dir entry \<in> set comps"
    then obtain entry' suffix where e': "path_join ?dir entry = path_join ?dir entry'"
      "suffix \<in> set allowedSuffixes" "toLowerCase entry' = ?bl @ suffix"
      using eq by auto
    from e'(1) have "entry = entry'"
      by (rule path_join_inject [OF path_dirname_nonempty])
    with e'(3) that(1) have "rest = suffix" by simp
    with e'(2) that(2) show False by simp
  qed
  with eq show ?thesis by blast
qed




lemma gatherComponents_unfold:
  "gatherComponents e shpPath tr =
     (case fs_readdir e tr (path_dirname shpPath) of
        Inl msg \<Rightarrow> (Inl msg, tr @ [EvReaddir (path_dirname shpPath)])
      | Inr entries \<Rightarrow>
          (check_required shpPath required
             (gather_loop (path_dirname shpPath) (toLowerCase (path_parse_name shpPath)) entries []),
           tr @ [EvReaddir (path_dirname shpPath)]))"
  by (simp add: gatherComponents_def Let_def)

lemma lake_names:
  "path_dirname ''/d/Lake.shp'' = ''/d''" "toLowerCase (path_parse_name ''/d/Lake.shp'') = ''lake''"
  by (simp_all add: path_eval string_eval)

lemma lake_candidates:
  "gather_loop ''/d'' ''lake'' [''Lake.SHP'', ''lake.shx'', ''lake.dbf'', ''lake_2.shp''] []
     = [''/d/Lake.SHP'', ''/d/lake.shx'', ''/d/lake.dbf'']"
  by (simp add: string_eval allowedSuffixes_def path_join_def)

lemma lake_required:
  "check_required p required [''/d/Lake.SHP'', ''/d/lake.shx'', ''/d/lake.dbf'']
     = Inr [''/d/Lake.SHP'', ''/d/lake.shx'', ''/d/lake.dbf'']"
  by (simp add: required_def string_eval)

lemma lake_components:
  "gatherComponents lake_env ''/d/Lake.shp'' tr
     = (Inr [''/d/Lake.SHP'', ''/d/lake.shx'', ''/d/lake.dbf''], tr @ [EvReaddir ''/d''])"
  unfolding gatherComponents_unfold lake_names
  by (simp add: lake_env_def quiet_env_def lake_candidates lake_required del: gather_loop.simps check_required.simps)

theorem gatherComponents_exact_suffix_witness:
  "fs_readdir lake_env [] (path_dirname ''/d/Lake.shp'') = Inr [''Lake.SHP'', ''lake.shx'', ''lake.dbf'', ''lake_2.shp'']
   \<and> fst (gatherComponents lake_env ''/d/Lake.shp'' []) = Inr [''/d/Lake.SHP'', ''/d/lake.shx'', ''/d/lake.dbf'']
   \<and> path_join (path_dirname ''/d/Lake.shp'') ''lake_2.shp'' \<notin> set [''/d/Lake.SHP'', ''/d/lake.shx'', ''/d/lake.dbf'']"
proof -
  have h1: "fs_readdir lake_env [] (path_dirname ''/d/Lake.shp'') = Inr [''Lake.SHP'', ''lake.shx'', ''lake.dbf'', ''lake_2.shp'']"
    by (simp add: lake_env_def quiet_env_def)
  have h2: "fst (gatherComponents lake_env ''/d/Lake.shp'' []) = Inr [''/d/Lake.SHP'', ''/d/lake.shx'', ''/d/lake.dbf'']"
    by (simp add: lake_components)
  have h3: "toLowerCase ''lake_2.shp'' = toLowerCase (path_parse_name ''/d/Lake.shp'') @ ''_2.shp''"
    unfolding lake_names by (simp add: string_eval)
  have h4: "''_2.shp'' \<notin> set allowedSuffixes"
    by (simp add: allowedSuffixes_def)
  have h5: "''lake_2.shp'' \<in> set [''Lake.SHP'', ''lake.shx'', ''lake.dbf'', ''lake_2.shp'']"
    by simp
  have "path_join (path_dirname ''/d/Lake.shp'') ''lake_2.shp'' \<notin> set [''/d/Lake.SHP'', ''/d/lake.shx'', ''/d/lake.dbf'']"
    using conjunct2 [OF gatherComponents_exact_suffix [OF h1 h2], rule_format, of "''lake_2.shp''" "''_2.shp''"] h3 h4 h5
    by fast
  with h1 h2 show ?thesis by fast
qed


lemma endsWith_nonempty: "endsWith (toLowerCase file) ext \<Longrightarrow> ext \<noteq> [] \<Longrightarrow> file \<noteq> []"
  by (auto simp: endsWith_def toLowerCase_def)

lemma check_required_step:
  assumes "ext \<noteq> []"
  shows "check_required p (ext # exts) comps =
           (if \<exists>file \<in> set comps. endsWith (toLowerCase file) ext
            then check_required p exts comps else Inl (missing_message ext p))"
proof (cases "find (\<lambda>file. endsWith (toLowerCase file) ext) comps")
  case None
  then have "\<not> (\<exists>file \<in> set comps. endsWith (toLowerCase file) ext)"
    by (simp add: find_None_iff)
  with None show ?thesis by simp
next
  case (Some match)
  then have "match \<in> set comps" "endsWith (toLowerCase match) ext"
    by (auto simp: find_Some_iff)
  moreover from this assms have "match \<noteq> []"
    by (auto dest: endsWith_nonempty)
  ultimately show ?thesis using Some by auto
qed

lemma check_required_missing:
  assumes "[] \<notin> set exts" "ext \<in> set exts"
      and "\<forall>file \<in> set comps. \<not> endsWith (toLowerCase file) ext"
    shows "\<exists>missing \<in> set exts. (\<forall>file \<in> set comps. \<not> endsWith (toLowerCase file) missing)
             \<and> check_required p exts comps = Inl (missing_message missing p)"
  using assms
proof (induction exts)
  case Nil
  then show ?case by simp
next
  case (Cons x exts)
  from Cons.prems(1) have x: "x \<noteq> []" and rest: "[] \<notin> set exts" by auto
  show ?case
  proof (cases "\<exists>file \<in> set comps. endsWith (toLowerCase file) x")
    case True
    with Cons.prems have "ext \<in> set exts" by auto
    from Cons.IH [OF rest this Cons.prems(3)] True x show ?thesis
      by (auto simp: check_required_step simp del: check_required.simps(2))
  next
    case False
    with x show ?thesis
      by (auto simp: check_required_step simp del: check_required.simps(2))
  qed
qed

lemma check_required_set:
  assumes "[] \<notin> set exts" "set comps' = set comps"
  shows "map_sum id set (check_required p exts comps') = map_sum id set (check_required p exts comps)"
  using assms
  by (induction exts) (auto simp: check_required_step simp del: check_required.simps(2))

lemma required_nonempty: "[] \<notin> set required"
  by (simp add: required_def)

text \<open>
  Claim C8. Grouping reads nothing but the listing of the primary file's directory: two
  runs that are given the same listing return the same result, whatever happened before
  them, and two runs whose listings hold the same entries in any order return the same
  error or the same set of components.
\<close>

theorem gatherComponents_deterministic:
  assumes "fs_readdir e tr (path_dirname shpPath) = Inr entries"
      and "fs_readdir e' tr' (path_dirname shpPath) = Inr entries'"
    shows "(entries' = entries \<longrightarrow>
              fst (gatherComponents e' shpPath tr') = fst (gatherComponents e shpPath tr))
           \<and> (set entries' = set entries \<longrightarrow>
                map_sum id set (fst (gatherComponents e' shpPath tr'))
                  = map_sum id set (fst (gatherComponents e shpPath tr)))"
proof -
  let ?g = "\<lambda>es. gather_loop (path_dirname shpPath) (toLowerCase (path_parse_name shpPath)) es []"
  have "set (?g entries') = set (?g entries)" if "set entries' = set entries"
    using that by (simp add: gather_loop_exec)
  then have "map_sum id set (check_required shpPath required (?g entries'))
               = map_sum id set (check_required shpPath required (?g entries))"
    if "set entries' = set entries"
    using that check_required_set [OF required_nonempty] by blast
  with assms show ?thesis
    by (simp add: gatherComponents_unfold)
qed


lemma lake_listing:
  "fs_readdir lake_env tr p = Inr [''Lake.SHP'', ''lake.shx'', ''lake.dbf'', ''lake_2.shp'']"
  "fs_readdir permuted_lake_env tr p = Inr [''lake.dbf'', ''lake_2.shp'', ''lake.shx'', ''Lake.SHP'']"
  by (simp_all add: lake_env_def permuted_lake_env_def quiet_env_def)

theorem gatherComponents_deterministic_witness:
  "fst (gatherComponents lake_env ''/d/Lake.shp'' [EvNow]) = fst (gatherComponents lake_env ''/d/Lake.shp'' [])
   \<and> map_sum id set (fst (gatherComponents permuted_lake_env ''/d/Lake.shp'' [EvNow]))
       = map_sum id set (fst (gatherComponents lake_env ''/d/Lake.shp'' []))"
proof -
  have same: "fst (gatherComponents lake_env ''/d/Lake.shp'' [EvNow])
                = fst (gatherComponents lake_env ''/d/Lake.shp'' [])"
    using gatherComponents_deterministic [of lake_env "[]" "''/d/Lake.shp''" _ lake_env "[EvNow]",
        OF lake_listing(1) lake_listing(1)]
    by simp
  have sets: "set [''lake.dbf'', ''lake_2.shp'', ''lake.shx'', ''Lake.SHP'']
                = set [''Lake.SHP'', ''lake.shx'', ''lake.dbf'', ''lake_2.shp'']"
    by (simp add: insert_commute)
  have "map_sum id set (fst (gatherComponents permuted_lake_env ''/d/Lake.shp'' [EvNow]))
          = map_sum id set (fst (gatherComponents lake_env ''/d/Lake.shp'' []))"
    using gatherComponents_deterministic [of lake_env "[]" "''/d/Lake.shp''" _ permuted_lake_env "[EvNow]",
        OF lake_listing(1) lake_listing(2)] sets
    by blast
  with same show ?thesis ..
qed

section \<open>Properties of the batch driver\<close>

lemma main_loop_body_unfold:
  "main_loop_body e opts authHeader tempDir shpPath tr =
     (case gatherComponents e shpPath (tr @ [EvConsole (processing_line opts shpPath)]) of
        (Inl msg, tr2) \<Rightarrow> tr2 @ [EvConsole (ErrSkipping (relative_of opts shpPath) msg)]
      | (Inr componentPaths, tr2) \<Rightarrow>
          (case createZip e componentPaths tempDir
                  (storeName_of opts shpPath @ ''-'' @ show_nat (date_now e tr2)) (tr2 @ [EvNow]) of
             (Inl msg, tr3) \<Rightarrow> tr3 @ [EvConsole (ErrFailedZip (relative_of opts shpPath) msg)]
           | (Inr zipPath, tr3) \<Rightarrow>
               (if zipPath \<noteq> []
                then try_upload_and_publish e opts authHeader (relative_of opts shpPath)
                       (storeName_of opts shpPath) (layerName_of opts shpPath)
                       (path_parse_name shpPath) zipPath tr3 @ [EvRm zipPath]
                else try_upload_and_publish e opts authHeader (relative_of opts shpPath)
                       (storeName_of opts shpPath) (layerName_of opts shpPath)
                       (path_parse_name shpPath) zipPath tr3)))"
  unfolding main_loop_body_def processing_line_def relative_of_def storeName_of_def
    layerName_of_def Let_def
  by (rule refl)

text \<open>
  Claim C3. If, for one of the three required extensions, no assembled component ends with
  it, grouping fails with the message that names the first such extension and the path of
  the primary file; the iteration prints the processing line, lists the directory and
  prints the skip line with that message, and does nothing else (no clock read, no
  archive, no request); the loop goes on with the remaining files.
\<close>

theorem missing_component_skips_dataset:
  assumes "fs_readdir e (tr @ [EvConsole (processing_line opts shpPath)]) (path_dirname shpPath)
             = Inr entries"
      and "ext \<in> set required"
      and "\<forall>file \<in> set (gather_loop (path_dirname shpPath) (toLowerCase (path_parse_name shpPath))
                            entries []). \<not> endsWith (toLowerCase file) ext"
    shows \<open>\<exists>missing \<in> set required.
             (\<forall>file \<in> set (gather_loop (path_dirname shpPath)
                               (toLowerCase (path_parse_name shpPath)) entries []).
                 \<not> endsWith (toLowerCase file) missing)
             \<and> missing_message missing shpPath
                 = ''Missing required ".'' @ drop 1 missing @ ''" file for shapefile "'' @ shpPath @ ''".''
             \<and> fst (gatherComponents e shpPath (tr @ [EvConsole (processing_line opts shpPath)]))
                 = Inl (missing_message missing shpPath)
             \<and> main_loop_body e opts authHeader tempDir shpPath tr
                 = tr @ [EvConsole (processing_line opts shpPath),
                         EvReaddir (path_dirname shpPath),
                         EvConsole (ErrSkipping (relative_of opts shpPath)
                                      (missing_message missing shpPath))]
             \<and> main_loop e opts authHeader tempDir (shpPath # rest) tr
                 = main_loop e opts authHeader tempDir rest
                     (tr @ [EvConsole (processing_line opts shpPath),
                            EvReaddir (path_dirname shpPath),
                            EvConsole (ErrSkipping (relative_of opts shpPath)
                                         (missing_message missing shpPath))])\<close>
proof -
  let ?comps = "gather_loop (path_dirname shpPath) (toLowerCase (path_parse_name shpPath)) entries []"
  let ?tr1 = "tr @ [EvConsole (processing_line opts shpPath)]"
  from check_required_missing [OF required_nonempty assms(2,3), of shpPath]
  obtain missing where m: "missing \<in> set required"
      "\<forall>file \<in> set ?comps. \<not> endsWith (toLowerCase file) missing"
      "check_required shpPath required ?comps = Inl (missing_message missing shpPath)"
    by blast
  from m(3) assms(1)
  have g: "gatherComponents e shpPath ?tr1
             = (Inl (missing_message missing shpPath), ?tr1 @ [EvReaddir (path_dirname shpPath)])"
    by (simp add: gatherComponents_unfold)
  then have b: "main_loop_body e opts authHeader tempDir shpPath tr
             = tr @ [EvConsole (processing_line opts shpPath), EvReaddir (path_dirname shpPath),
                     EvConsole (ErrSkipping (relative_of opts shpPath) (missing_message missing shpPath))]"
    by (simp add: main_loop_body_unfold)
  from m(1,2) g b show ?thesis
    by (intro bexI [of _ missing]) (simp_all add: missing_message_def)
qed

lemma shx_names:
  "path_dirname ''/d/lake.shp'' = ''/d''" "toLowerCase (path_parse_name ''/d/lake.shp'') = ''lake''"
  by (simp_all add: path_eval string_eval)

lemma shx_candidates:
  "gather_loop ''/d'' ''lake'' [''lake.shp'', ''lake.shx''] [] = [''/d/lake.shp'', ''/d/lake.shx'']"
  by (simp add: string_eval allowedSuffixes_def path_join_def)

theorem missing_component_skips_dataset_witness:
  \<open>fst (gatherComponents shx_env ''/d/lake.shp'' [EvConsole (processing_line sample_options ''/d/lake.shp'')])
     = Inl ''Missing required ".dbf" file for shapefile "/d/lake.shp".''
   \<and> main_loop shx_env sample_options ''Basic dTpw'' ''/tmp/t'' [''/d/lake.shp''] []
     = [EvConsole (processing_line sample_options ''/d/lake.shp''), EvReaddir ''/d'',
        EvConsole (ErrSkipping (relative_of sample_options ''/d/lake.shp'')
                     ''Missing required ".dbf" file for shapefile "/d/lake.shp".'')]\<close>
proof -
  let ?p = "''/d/lake.shp''"
  let ?tr1 = "[] @ [EvConsole (processing_line sample_options ?p)]"
  have h1: "fs_readdir shx_env ?tr1 (path_dirname ?p) = Inr [''lake.shp'', ''lake.shx'']"
    by (simp add: shx_env_def quiet_env_def)
  have h2: "''.dbf'' \<in> set required"
    by (simp add: required_def)
  have h3: "\<forall>file \<in> set (gather_loop (path_dirname ?p) (toLowerCase (path_parse_name ?p))
                            [''lake.shp'', ''lake.shx''] []). \<not> endsWith (toLowerCase file) ''.dbf''"
    unfolding shx_names shx_candidates by (simp add: string_eval)
  from missing_component_skips_dataset [of shx_env "[]" sample_options ?p _ "''.dbf''"
      "''Basic dTpw''" "''/tmp/t''" "[]", OF h1 h2 h3]
  obtain missing where m: "missing \<in> set required"
      "\<forall>file \<in> set [''/d/lake.shp'', ''/d/lake.shx'']. \<not> endsWith (toLowerCase file) missing"
      "fst (gatherComponents shx_env ?p ?tr1) = Inl (missing_message missing ?p)"
      "main_loop shx_env sample_options ''Basic dTpw'' ''/tmp/t'' [?p] []
         = main_loop shx_env sample_options ''Basic dTpw'' ''/tmp/t'' []
             ([] @ [EvConsole (processing_line sample_options ?p), EvReaddir (path_dirname ?p),
                    EvConsole (ErrSkipping (relative_of sample_options ?p) (missing_message missing ?p))])"
    unfolding shx_names shx_candidates by blast
  from m(1,2) have "missing = ''.dbf''"
    by (auto simp: required_def string_eval)
  with m(3,4) show ?thesis
    by (simp add: missing_message_def shx_names)
qed

section \<open>Properties of upload and publishing\<close>

lemma upload_query: "params_toString (upload_params ow)
    = ''charset=UTF-8&configure=none'' @ (if ow then ''&update=overwrite'' else [])"
  by (simp add: upload_params_def params_set_def params_toString_def form_encode_def
      is_alnum_def char_eval)

lemma uploadDatastoreZip_unfold:
  "uploadDatastoreZip e base ws store zipPath auth ow tr =
     (case fs_readFile e tr zipPath of
        Inl msg \<Rightarrow> (Inl msg, tr @ [EvReadFile zipPath])
      | Inr zipBuffer \<Rightarrow>
          (case net_fetch e (tr @ [EvReadFile zipPath]) (upload_request base ws store auth ow zipBuffer) of
             Inl msg \<Rightarrow> (Inl msg, tr @ [EvReadFile zipPath, EvFetch (upload_request base ws store auth ow zipBuffer)])
           | Inr response \<Rightarrow>
               (if resp_ok response then Inr ()
                else case resp_text response of
                       Inl msg \<Rightarrow> Inl msg
                     | Inr body \<Rightarrow> Inl (upload_error store response body),
                tr @ [EvReadFile zipPath, EvFetch (upload_request base ws store auth ow zipBuffer)])))"
  by (simp add: uploadDatastoreZip_def Let_def split: sum.splits)

text \<open>
  Claim C4. Once the bundle is read, the upload is one PUT request of the bundle's bytes to
  the \<^verbatim>\<open>file.shp\<close> resource of the store, workspace and store name URI-encoded, with
  the query \<^verbatim>\<open>charset=UTF-8&configure=none\<close>, followed by \<^verbatim>\<open>&update=overwrite\<close>
  exactly when the overwrite flag is set. A response with a status outside 200 to 299 whose
  body can be read makes the upload fail with a message that holds the status and the
  body; a status within 200 to 299 makes it succeed.
\<close>

theorem uploadDatastoreZip_request:
  assumes "fs_readFile e tr zipPath = Inr bytes"
  shows \<open>\<exists>result.
           uploadDatastoreZip e base ws store zipPath auth ow tr
             = (result,
                tr @ [EvReadFile zipPath,
                      EvFetch \<lparr>req_method = ''PUT'',
                               req_url = base @ ''/rest/workspaces/'' @ encodeURIComponent ws
                                 @ ''/datastores/'' @ encodeURIComponent store
                                 @ ''/file.shp?charset=UTF-8&configure=none''
                                 @ (if ow then ''&update=overwrite'' else []),
                               req_headers = [(''Content-Type'', ''application/zip''),
                                              (''Authorization'', auth),
                                              (''Content-Length'', show_nat (length bytes))],
                               req_body = Some bytes\<rparr>])
           \<and> (\<forall>response body.
                 net_fetch e (tr @ [EvReadFile zipPath]) (upload_request base ws store auth ow bytes)
                   = Inr response
                 \<and> \<not> (200 \<le> resp_status response \<and> resp_status response \<le> 299)
                 \<and> resp_text response = Inr body
                 \<longrightarrow> result = Inl (''Upload failed for datastore "'' @ store @ ''". Status ''
                                     @ show_nat (resp_status response) @ '' ''
                                     @ resp_statusText response @ ''. Response: '' @ body))
           \<and> (\<forall>response.
                 net_fetch e (tr @ [EvReadFile zipPath]) (upload_request base ws store auth ow bytes)
                   = Inr response
                 \<and> 200 \<le> resp_status response \<and> resp_status response \<le> 299
                 \<longrightarrow> result = Inr ())\<close>
proof -
  have req: "upload_request base ws store auth ow bytes
      = \<lparr>req_method = ''PUT'',
         req_url = base @ ''/rest/workspaces/'' @ encodeURIComponent ws
                     @ ''/datastores/'' @ encodeURIComponent store
                     @ ''/file.shp?charset=UTF-8&configure=none''
                     @ (if ow then ''&update=overwrite'' else []),
         req_headers = [(''Content-Type'', ''application/zip''), (''Authorization'', auth),
                        (''Content-Length'', show_nat (length bytes))],
         req_body = Some bytes\<rparr>"
    by (simp add: upload_request_def upload_target_def upload_query)
  show ?thesis
    unfolding req [symmetric]
    using assms
    by (auto simp: uploadDatastoreZip_unfold resp_ok_def upload_error_def status_message_def
        split: sum.splits)
qed


lemma publishLayer_unfold:
  "publishLayer e base ws store layerName nativeName auth ow tr =
     (case net_fetch e tr (json_request ''POST'' (publish_url base ws store) auth (featurePayload layerName nativeName)) of
        Inl msg \<Rightarrow>
          (Inl msg, tr @ [EvFetch (json_request ''POST'' (publish_url base ws store) auth (featurePayload layerName nativeName))])
      | Inr response \<Rightarrow>
          if resp_ok response
          then (Inr (), tr @ [EvFetch (json_request ''POST'' (publish_url base ws store) auth (featurePayload layerName nativeName))])
          else if resp_status response = 409
          then (if \<not> ow
                then (Inr (), tr @ [EvFetch (json_request ''POST'' (publish_url base ws store) auth (featurePayload layerName nativeName)),
                                   EvConsole (WarnLayerExists layerName ws)])
                else (case net_fetch e
                             (tr @ [EvFetch (json_request ''POST'' (publish_url base ws store) auth (featurePayload layerName nativeName))])
                             (json_request ''PUT'' (adjust_url base ws store layerName) auth (featurePayload layerName nativeName)) of
                        Inl msg \<Rightarrow> Inl msg
                      | Inr adjustResponse \<Rightarrow>
                          if resp_ok adjustResponse then Inr ()
                          else (case resp_text adjustResponse of
                                  Inl msg \<Rightarrow> Inl msg
                                | Inr body \<Rightarrow> Inl (update_error layerName adjustResponse body)),
                      tr @ [EvFetch (json_request ''POST'' (publish_url base ws store) auth (featurePayload layerName nativeName)),
                            EvFetch (json_request ''PUT'' (adjust_url base ws store layerName) auth (featurePayload layerName nativeName))]))
          else (case resp_text response of
                  Inl msg \<Rightarrow> Inl msg
                | Inr errorText \<Rightarrow> Inl (publish_error layerName response errorText),
                tr @ [EvFetch (json_request ''POST'' (publish_url base ws store) auth (featurePayload layerName nativeName))]))"
  by (simp add: publishLayer_def Let_def split: sum.splits)

lemma resp_409_not_ok: "resp_status response = 409 \<Longrightarrow> \<not> resp_ok response"
  by (simp add: resp_ok_def)

text \<open>
  Claim C1. When the create request is answered with status 409: without the overwrite flag
  the orchestrator prints the skip notice and returns normally, having sent the POST only;
  with the flag it sends, after the POST, exactly one PUT of the same descriptor to the
  resource of the existing feature type and nothing else, returns normally when the PUT is
  answered with a status from 200 to 299, and otherwise fails with a message that holds
  the status and the body of that answer.
\<close>

theorem publishLayer_conflict:
  assumes "net_fetch e tr (json_request ''POST'' (publish_url base ws store) auth (featurePayload layerName nativeName))
             = Inr response"
      and "resp_status response = 409"
  shows \<open>(\<not> ow \<longrightarrow>
            publishLayer e base ws store layerName nativeName auth ow tr
              = (Inr (),
                 tr @ [EvFetch (json_request ''POST'' (publish_url base ws store) auth (featurePayload layerName nativeName)),
                       EvConsole (WarnLayerExists layerName ws)]))
         \<and> (ow \<longrightarrow>
              (\<exists>result.
                 publishLayer e base ws store layerName nativeName auth ow tr
                   = (result,
                      tr @ [EvFetch (json_request ''POST'' (publish_url base ws store) auth (featurePayload layerName nativeName)),
                            EvFetch \<lparr>req_method = ''PUT'',
                                     req_url = base @ ''/rest/workspaces/'' @ encodeURIComponent ws
                                       @ ''/datastores/'' @ encodeURIComponent store
                                       @ ''/featuretypes/'' @ encodeURIComponent layerName
                                       @ ''?recalculate=nativebbox,latlonbbox'',
                                     req_headers = [(''Content-Type'', ''application/json''),
                                                    (''Authorization'', auth)],
                                     req_body = Some (featurePayload layerName nativeName)\<rparr>])
                 \<and> (\<forall>adjust.
                       net_fetch e
                         (tr @ [EvFetch (json_request ''POST'' (publish_url base ws store) auth (featurePayload layerName nativeName))])
                         (json_request ''PUT'' (adjust_url base ws store layerName) auth (featurePayload layerName nativeName))
                         = Inr adjust
                       \<longrightarrow> (200 \<le> resp_status adjust \<and> resp_status adjust \<le> 299 \<longrightarrow> result = Inr ())
                         \<and> (\<forall>body. \<not> (200 \<le> resp_status adjust \<and> resp_status adjust \<le> 299)
                                    \<and> resp_text adjust = Inr body
                               \<longrightarrow> result = Inl (''Failed to update existing layer "'' @ layerName
                                                   @ ''". Status '' @ show_nat (resp_status adjust) @ '' ''
                                                   @ resp_statusText adjust @ ''. Response: '' @ body)))))\<close>
proof -
  have put: "json_request ''PUT'' (adjust_url base ws store layerName) auth (featurePayload layerName nativeName)
      = \<lparr>req_method = ''PUT'',
         req_url = base @ ''/rest/workspaces/'' @ encodeURIComponent ws
                     @ ''/datastores/'' @ encodeURIComponent store
                     @ ''/featuretypes/'' @ encodeURIComponent layerName
                     @ ''?recalculate=nativebbox,latlonbbox'',
         req_headers = [(''Content-Type'', ''application/json''), (''Authorization'', auth)],
         req_body = Some (featurePayload layerName nativeName)\<rparr>"
    by (simp add: json_request_def adjust_url_def)
  show ?thesis
    unfolding put [symmetric]
    using assms resp_409_not_ok [OF assms(2)]
    by (auto simp: publishLayer_unfold resp_ok_def update_error_def status_message_def
        split: sum.splits)
qed


lemma conflict_fetch:
  "req_method r = ''POST'' \<Longrightarrow>
     net_fetch conflict_env tr r
       = Inr \<lparr>resp_status = 409, resp_statusText = ''Conflict'',
               resp_text = Inr ''exists'', resp_json = Inl ''no json''\<rparr>"
  "req_method r = ''PUT'' \<Longrightarrow>
     net_fetch conflict_env tr r
       = Inr \<lparr>resp_status = 500, resp_statusText = ''Server Error'',
               resp_text = Inr ''boom'', resp_json = Inl ''no json''\<rparr>"
  by (simp_all add: conflict_env_def quiet_env_def)

theorem uploadDatastoreZip_request_witness:
  \<open>fst (uploadDatastoreZip conflict_env ''http://h/g'' ''ws'' ''s_lake'' ''/tmp/t/z.zip'' ''Basic dTpw'' True [])
     = Inl ''Upload failed for datastore "s_lake". Status 500 Server Error. Response: boom''\<close>
proof -
  let ?req = "upload_request ''http://h/g'' ''ws'' ''s_lake'' ''Basic dTpw'' True ''PK''"
  let ?resp = "\<lparr>resp_status = 500, resp_statusText = ''Server Error'',
                 resp_text = Inr ''boom'', resp_json = Inl ''no json''\<rparr>"
  have h1: "fs_readFile conflict_env [] ''/tmp/t/z.zip'' = Inr ''PK''"
    by (simp add: conflict_env_def quiet_env_def)
  have h2: "net_fetch conflict_env ([] @ [EvReadFile ''/tmp/t/z.zip'']) ?req = Inr ?resp"
    by (rule conflict_fetch) (simp add: upload_request_def)
  from uploadDatastoreZip_request [OF h1, of "''http://h/g''" "''ws''" "''s_lake''" "''Basic dTpw''" True]
  obtain result where r:
    "fst (uploadDatastoreZip conflict_env ''http://h/g'' ''ws'' ''s_lake'' ''/tmp/t/z.zip'' ''Basic dTpw'' True [])
       = result"
    "\<forall>response body.
        net_fetch conflict_env ([] @ [EvReadFile ''/tmp/t/z.zip'']) ?req = Inr response
        \<and> \<not> (200 \<le> resp_status response \<and> resp_status response \<le> 299)
        \<and> resp_text response = Inr body
        \<longrightarrow> result = Inl (''Upload failed for datastore \"'' @ ''s_lake'' @ ''\". Status ''
                            @ show_nat (resp_status response) @ '' ''
                            @ resp_statusText response @ ''. Response: '' @ body)"
    by force
  from r(2) h2 have "result = Inl (''Upload failed for datastore \"'' @ ''s_lake'' @ ''\". Status ''
                            @ show_nat (resp_status ?resp) @ '' ''
                            @ resp_statusText ?resp @ ''. Response: '' @ ''boom'')"
    by simp
  with r(1) show ?thesis
    by (simp add: number_eval)
qed

theorem publishLayer_conflict_witness:
  \<open>publishLayer conflict_env ''http://h/g'' ''ws'' ''s_lake'' ''l_lake'' ''lake'' ''Basic dTpw'' False []
     = (Inr (),
        [EvFetch (json_request ''POST'' (publish_url ''http://h/g'' ''ws'' ''s_lake'') ''Basic dTpw''
                    (featurePayload ''l_lake'' ''lake'')),
         EvConsole (WarnLayerExists ''l_lake'' ''ws'')])
   \<and> fst (publishLayer conflict_env ''http://h/g'' ''ws'' ''s_lake'' ''l_lake'' ''lake'' ''Basic dTpw'' True [])
     = Inl ''Failed to update existing layer "l_lake". Status 500 Server Error. Response: boom''\<close>
proof -
  let ?post = "json_request ''POST'' (publish_url ''http://h/g'' ''ws'' ''s_lake'') ''Basic dTpw''
                 (featurePayload ''l_lake'' ''lake'')"
  let ?put = "json_request ''PUT'' (adjust_url ''http://h/g'' ''ws'' ''s_lake'' ''l_lake'') ''Basic dTpw''
                 (featurePayload ''l_lake'' ''lake'')"
  let ?conflict = "\<lparr>resp_status = 409, resp_statusText = ''Conflict'',
                     resp_text = Inr ''exists'', resp_json = Inl ''no json''\<rparr>"
  let ?error = "\<lparr>resp_status = 500, resp_statusText = ''Server Error'',
                  resp_text = Inr ''boom'', resp_json = Inl ''no json''\<rparr>"
  have h1: "net_fetch conflict_env [] ?post = Inr ?conflict"
    by (rule conflict_fetch) (simp add: json_request_def)
  have h2: "resp_status ?conflict = 409"
    by simp
  have h3: "net_fetch conflict_env ([] @ [EvFetch ?post]) ?put = Inr ?error"
    by (rule conflict_fetch) (simp add: json_request_def)
  note at_conflict = publishLayer_conflict [OF h1 h2]
  have skip: "publishLayer conflict_env ''http://h/g'' ''ws'' ''s_lake'' ''l_lake'' ''lake'' ''Basic dTpw'' False []
     = (Inr (), [EvFetch ?post, EvConsole (WarnLayerExists ''l_lake'' ''ws'')])"
    using at_conflict [of False] by simp
  from at_conflict [of True] obtain result where r:
    "fst (publishLayer conflict_env ''http://h/g'' ''ws'' ''s_lake'' ''l_lake'' ''lake'' ''Basic dTpw'' True [])
       = result"
    "\<forall>adjust. net_fetch conflict_env ([] @ [EvFetch ?post]) ?put = Inr adjust
       \<longrightarrow> (200 \<le> resp_status adjust \<and> resp_status adjust \<le> 299 \<longrightarrow> result = Inr ())
         \<and> (\<forall>body. \<not> (200 \<le> resp_status adjust \<and> resp_status adjust \<le> 299)
                    \<and> resp_text adjust = Inr body
               \<longrightarrow> result = Inl (''Failed to update existing layer \"'' @ ''l_lake''
                                   @ ''\". Status '' @ show_nat (resp_status adjust) @ '' ''
                                   @ resp_statusText adjust @ ''. Response: '' @ body))"
    by force
  from r(2) h3 have "result = Inl (''Failed to update existing layer \"'' @ ''l_lake''
                                   @ ''\". Status '' @ show_nat (resp_status ?error) @ '' ''
                                   @ resp_statusText ?error @ ''. Response: '' @ ''boom'')"
    by simp
  with r(1) have "fst (publishLayer conflict_env ''http://h/g'' ''ws'' ''s_lake'' ''l_lake'' ''lake'' ''Basic dTpw'' True [])
     = Inl ''Failed to update existing layer \"l_lake\". Status 500 Server Error. Response: boom''"
    by (simp add: number_eval)
  with skip show ?thesis ..
qed


section \<open>Properties of name sanitising\<close>

lemma dropWhile_all_space: "(\<forall>x \<in> set cs. is_space x) \<Longrightarrow> dropWhile is_space cs = []"
  by simp

lemma rtrim_Nil [simp]: "rtrim [] = []"
  by (simp add: rtrim_def)

lemma rtrim_Cons: "rtrim (c # cs) = (if is_space c \<and> (\<forall>x \<in> set cs. is_space x) then [] else c # rtrim cs)"
  by (auto simp: rtrim_def dropWhile_append)

lemma rtrim_all_space: "(\<forall>x \<in> set cs. is_space x) \<Longrightarrow> rtrim cs = []"
  by (induction cs) (auto simp: rtrim_Cons)

lemma dropWhile_rtrim: "dropWhile is_space (rtrim cs) = rtrim (dropWhile is_space cs)"
proof (induction cs)
  case Nil
  show ?case by simp
next
  case (Cons c cs)
  show ?case
  proof (cases "is_space c")
    case True
    show ?thesis
    proof (cases "\<forall>x \<in> set cs. is_space x")
      case True
      with \<open>is_space c\<close> show ?thesis
        by (simp add: rtrim_Cons dropWhile_all_space)
    next
      case False
      with \<open>is_space c\<close> Cons.IH show ?thesis
        by (auto simp: rtrim_Cons)
    qed
  next
    case False
    then show ?thesis by (simp add: rtrim_Cons)
  qed
qed

lemma trim_rtrim: "trim s = rtrim (dropWhile is_space s)"
  by (simp add: trim_def rtrim_def)

lemma trim_idem: "trim (trim s) = trim s"
proof -
  have "rtrim (rtrim x) = rtrim x" for x
    by (simp add: rtrim_def dropWhile_idem)
  then show ?thesis
    by (simp add: trim_rtrim dropWhile_rtrim dropWhile_idem)
qed

lemma space_words_from_skip:
  "space_words_from [] s = space_words_from [] (dropWhile is_space s)"
  by (induction s) auto

lemma space_words_from_nonempty: "cur \<noteq> [] \<Longrightarrow> space_words_from cur s \<noteq> []"
  by (induction s arbitrary: cur) auto

lemma join_with_Cons: "join_with sep (x # xs) = (if xs = [] then x else x @ sep @ join_with sep xs)"
  by (cases xs) auto

lemma join_space_words_from:
  "cur \<noteq> [] \<Longrightarrow>
     join_with ''_'' (space_words_from cur s) = cur @ replace_space_runs (rtrim s)"
proof (induction "length s" arbitrary: s cur rule: less_induct)
  case less
  show ?case
  proof (cases s)
    case Nil
    with less.prems show ?thesis by simp
  next
    case (Cons c cs)
    show ?thesis
    proof (cases "is_space c")
      case False
      have "join_with ''_'' (space_words_from (cur @ [c]) cs)
              = (cur @ [c]) @ replace_space_runs (rtrim cs)"
        using less.hyps [of cs "cur @ [c]"] Cons by simp
      with False Cons show ?thesis
        by (simp add: rtrim_Cons)
    next
      case True
      show ?thesis
      proof (cases "dropWhile is_space cs")
        case Nil
        then have all: "\<forall>x \<in> set cs. is_space x"
          by (simp add: dropWhile_eq_Nil_conv)
        have "space_words_from [] cs = []"
          using space_words_from_skip [of cs] Nil by simp
        with True Cons less.prems all show ?thesis
          by (simp add: rtrim_Cons)
      next
        case (Cons d ds)
        then have d: "\<not> is_space d"
          by (metis hd_dropWhile list.distinct(1) list.sel(1))
        from Cons have notall: "\<not> (\<forall>x \<in> set cs. is_space x)"
          by (simp add: dropWhile_eq_Nil_conv [symmetric])
        have len: "length ds < length s"
          using Cons \<open>s = c # cs\<close> length_dropWhile_le [of is_space cs] by simp
        have words: "space_words_from [] cs = space_words_from [d] ds"
          using space_words_from_skip [of cs] Cons d by simp
        have "join_with ''_'' (space_words_from [d] ds) = [d] @ replace_space_runs (rtrim ds)"
          using less.hyps [OF len, of "[d]"] by simp
        moreover have "replace_space_runs (rtrim (c # cs))
                         = CHR ''_'' # d # replace_space_runs (rtrim ds)"
          using True notall d Cons dropWhile_rtrim [of cs]
          by (simp add: rtrim_Cons)
        ultimately show ?thesis
          using True \<open>s = c # cs\<close> less.prems words space_words_from_nonempty [of "[d]" ds]
          by (simp add: join_with_Cons)
      qed
    qed
  qed
qed

text \<open>The code's \<open>sanitizeName\<close> computes the name the specification words describe.\<close>

lemma sanitizeName_collapsed: "sanitizeName s = collapsed_name s"
proof (cases "dropWhile is_space s")
  case Nil
  have "space_words_from [] s = []"
    using space_words_from_skip [of s] unfolding Nil by simp
  moreover have "trim s = []"
    unfolding trim_rtrim Nil by simp
  ultimately show ?thesis
    by (simp add: sanitizeName_def collapsed_name_def space_words_def)
next
  case (Cons d ds)
  then have d: "\<not> is_space d"
    by (metis hd_dropWhile list.distinct(1) list.sel(1))
  have "space_words_from [] s = space_words_from [d] ds"
    using space_words_from_skip [of s] Cons d by simp
  with Cons d show ?thesis
    by (simp add: sanitizeName_def collapsed_name_def space_words_def trim_rtrim rtrim_Cons
        join_space_words_from)
qed

section \<open>The shape of an iteration\<close>

lemma gatherComponents_trace:
  "snd (gatherComponents e shpPath tr) = tr @ [EvReaddir (path_dirname shpPath)]"
  by (simp add: gatherComponents_unfold split: sum.splits)

lemma path_join_nonempty: "b \<noteq> [] \<Longrightarrow> path_join a b \<noteq> []"
  by (simp add: path_join_def)

lemma createZip_unfold:
  "createZip e componentPaths tempDir name tr =
     (case fs_mkdir e tr tempDir of
        Some msg \<Rightarrow> (Inl msg, tr @ [EvMkdir tempDir])
      | None \<Rightarrow>
          (case exec_zip e (tr @ [EvMkdir tempDir, EvRm (path_join tempDir (name @ ''.zip''))])
                  (path_join tempDir (name @ ''.zip'')) componentPaths of
             Some msg \<Rightarrow> Inl msg
           | None \<Rightarrow> Inr (path_join tempDir (name @ ''.zip'')),
           tr @ [EvMkdir tempDir, EvRm (path_join tempDir (name @ ''.zip'')),
                 EvExecZip (path_join tempDir (name @ ''.zip'')) componentPaths]))"
  by (simp add: createZip_def Let_def split: option.splits)

lemma createZip_Inr:
  assumes "createZip e componentPaths tempDir name tr = (Inr zipPath, tr')"
  shows "zipPath = path_join tempDir (name @ ''.zip'')"
    and "tr' = tr @ [EvMkdir tempDir, EvRm zipPath, EvExecZip zipPath componentPaths]"
    and "zipPath \<noteq> []"
  using assms
  by (auto simp: createZip_unfold path_join_nonempty split: option.splits)

lemma uploadDatastoreZip_trace:
  "\<exists>events. snd (uploadDatastoreZip e base ws store zipPath auth ow tr) = tr @ events"
  by (simp add: uploadDatastoreZip_unfold split: sum.splits)

lemma publishLayer_trace:
  "\<exists>more. snd (publishLayer e base ws store layerName nativeName auth ow tr)
     = tr @ EvFetch (json_request ''POST'' (publish_url base ws store) auth
                       (featurePayload layerName nativeName)) # more"
  by (simp add: publishLayer_unfold split: sum.splits)

lemma upload_and_publish_uploaded:
  assumes "uploadDatastoreZip e (geoserverUrl opts) (workspace opts) store zipPath auth (overwrite opts) tr
             = (Inr (), tr1)"
  shows "\<exists>more. snd (upload_and_publish e opts auth store layerName raw zipPath tr)
           = tr1 @ EvFetch (json_request ''POST'' (publish_url (geoserverUrl opts) (workspace opts) store)
                              auth (featurePayload layerName raw)) # more"
proof -
  obtain result more where
    "publishLayer e (geoserverUrl opts) (workspace opts) store layerName raw auth (overwrite opts) tr1
       = (result, tr1 @ EvFetch (json_request ''POST'' (publish_url (geoserverUrl opts) (workspace opts) store)
                               auth (featurePayload layerName raw)) # more)"
    using publishLayer_trace [of e "geoserverUrl opts" "workspace opts" store layerName raw auth
        "overwrite opts" tr1]
    by (metis prod.collapse)
  with assms show ?thesis
    by (cases result) (simp_all add: upload_and_publish_def)
qed

lemma try_upload_and_publish_trace:
  "\<exists>events. try_upload_and_publish e opts auth rel store layerName raw zipPath tr = tr @ events
      \<and> events \<noteq> []
      \<and> (last events = EvConsole (LogPublished layerName)
           \<or> (\<exists>msg. last events = EvConsole (ErrFailedFor rel msg)))"
proof -
  let ?up = "uploadDatastoreZip e (geoserverUrl opts) (workspace opts) store zipPath auth (overwrite opts) tr"
  obtain r1 ev1 where up: "?up = (r1, tr @ ev1)"
    using uploadDatastoreZip_trace [of e "geoserverUrl opts" "workspace opts" store zipPath auth
        "overwrite opts" tr]
    by (metis prod.collapse)
  show ?thesis
  proof (cases r1)
    case (Inl msg)
    with up show ?thesis
      by (simp add: try_upload_and_publish_def upload_and_publish_def)
  next
    case (Inr u)
    let ?pub = "publishLayer e (geoserverUrl opts) (workspace opts) store layerName raw auth
                  (overwrite opts) (tr @ ev1)"
    obtain r2 ev2 where pub: "?pub = (r2, (tr @ ev1) @ ev2)"
      using publishLayer_trace [of e "geoserverUrl opts" "workspace opts" store layerName raw auth
          "overwrite opts" "tr @ ev1"]
      by (metis prod.collapse)
    with up Inr show ?thesis
      by (cases r2) (simp_all add: try_upload_and_publish_def upload_and_publish_def)
  qed
qed

lemma main_loop_body_zipped:
  assumes "gatherComponents e shpPath (tr @ [EvConsole (processing_line opts shpPath)])
             = (Inr componentPaths, tr2)"
      and "createZip e componentPaths tempDir
             (storeName_of opts shpPath @ ''-'' @ show_nat (date_now e tr2)) (tr2 @ [EvNow])
             = (Inr zipPath, tr3)"
  shows "main_loop_body e opts auth tempDir shpPath tr
           = try_upload_and_publish e opts auth (relative_of opts shpPath) (storeName_of opts shpPath)
               (layerName_of opts shpPath) (path_parse_name shpPath) zipPath tr3 @ [EvRm zipPath]"
  using assms createZip_Inr(3) [OF assms(2)]
  by (simp add: main_loop_body_unfold)

lemma main_loop_body_first:
  "\<exists>more. main_loop_body e opts auth tempDir shpPath tr
     = tr @ EvConsole (processing_line opts shpPath) # more"
proof -
  let ?tr1 = "tr @ [EvConsole (processing_line opts shpPath)]"
  obtain r2 where g: "gatherComponents e shpPath ?tr1 = (r2, ?tr1 @ [EvReaddir (path_dirname shpPath)])"
    using gatherComponents_trace [of e shpPath ?tr1] by (metis prod.collapse)
  show ?thesis
  proof (cases r2)
    case (Inl msg)
    with g show ?thesis by (simp add: main_loop_body_unfold)
  next
    case (Inr componentPaths)
    let ?tr2 = "?tr1 @ [EvReaddir (path_dirname shpPath)]"
    let ?zip = "createZip e componentPaths tempDir
                  (storeName_of opts shpPath @ ''-'' @ show_nat (date_now e ?tr2)) (?tr2 @ [EvNow])"
    show ?thesis
    proof (cases "fst ?zip")
      case (Inl msg)
      then have "?zip = (Inl msg, snd ?zip)" by (metis prod.collapse)
      moreover have "\<exists>events. snd ?zip = (?tr2 @ [EvNow]) @ events"
        by (simp add: createZip_unfold split: option.splits)
      ultimately show ?thesis
        using g Inr by (auto simp: main_loop_body_unfold)
    next
      case (Inr zipPath)
      then have z: "?zip = (Inr zipPath, snd ?zip)" by (metis prod.collapse)
      from createZip_Inr(2) [OF z]
      have tr3: "snd ?zip = (?tr2 @ [EvNow]) @ [EvMkdir tempDir, EvRm zipPath, EvExecZip zipPath componentPaths]" .
      obtain events where
        "try_upload_and_publish e opts auth (relative_of opts shpPath) (storeName_of opts shpPath)
           (layerName_of opts shpPath) (path_parse_name shpPath) zipPath (snd ?zip)
           = snd ?zip @ events"
        using try_upload_and_publish_trace by blast
      with main_loop_body_zipped [OF g [unfolded \<open>r2 = Inr componentPaths\<close>] z, of auth] tr3
      show ?thesis by simp
    qed
  qed
qed

lemma item_names:
  "storeName_of opts shpPath = storePrefix opts @ collapsed_name (path_parse_name shpPath)"
  "layerName_of opts shpPath = layerPrefix opts @ collapsed_name (path_parse_name shpPath)"
  by (simp_all add: storeName_of_def layerName_of_def sanitizeName_def trim_idem
      sanitizeName_collapsed [symmetric])

lemma main_loop_body_post:
  assumes "gatherComponents e shpPath (tr @ [EvConsole (processing_line opts shpPath)])
             = (Inr componentPaths, tr2)"
      and "createZip e componentPaths tempDir
             (storeName_of opts shpPath @ ''-'' @ show_nat (date_now e tr2)) (tr2 @ [EvNow])
             = (Inr zipPath, tr3)"
      and "uploadDatastoreZip e (geoserverUrl opts) (workspace opts) (storeName_of opts shpPath)
             zipPath auth (overwrite opts) tr3 = (Inr (), tr4)"
  shows "\<exists>more. main_loop_body e opts auth tempDir shpPath tr
           = tr4 @ EvFetch (json_request ''POST''
                              (publish_url (geoserverUrl opts) (workspace opts) (storeName_of opts shpPath))
                              auth (featurePayload (layerName_of opts shpPath) (path_parse_name shpPath)))
                 # more"
proof -
  let ?post = "EvFetch (json_request ''POST''
                 (publish_url (geoserverUrl opts) (workspace opts) (storeName_of opts shpPath))
                 auth (featurePayload (layerName_of opts shpPath) (path_parse_name shpPath)))"
  obtain more where up:
    "snd (upload_and_publish e opts auth (storeName_of opts shpPath) (layerName_of opts shpPath)
            (path_parse_name shpPath) zipPath tr3) = tr4 @ ?post # more"
    using upload_and_publish_uploaded [OF assms(3)] by blast
  have "\<exists>more'. try_upload_and_publish e opts auth (relative_of opts shpPath)
            (storeName_of opts shpPath) (layerName_of opts shpPath) (path_parse_name shpPath)
            zipPath tr3 = tr4 @ ?post # more'"
    using up by (auto simp: try_upload_and_publish_def split: prod.splits sum.splits)
  then show ?thesis
    by (auto simp: main_loop_body_zipped [OF assms(1,2)])
qed

section \<open>Evaluation of the sample runs\<close>

lemma accepting_env_simps:
  "fs_access (accepting_env l) tr p = None"
  "fs_readdir (accepting_env l) tr p = Inr l"
  "fs_mkdtemp (accepting_env l) tr p = Inr (p @ ''abc'')"
  "fs_mkdir (accepting_env l) tr p = None"
  "exec_zip (accepting_env l) tr z cs = None"
  "fs_readFile (accepting_env l) tr p = Inr ''PK''"
  "date_now (accepting_env l) tr = 17"
  "os_tmpdir (accepting_env l) = ''/tmp''"
  "base64_utf8 (accepting_env l) s = ''dTpw''"
  "net_fetch (accepting_env l) tr r
     = Inr \<lparr>resp_status = (if req_method r = ''POST'' then 201 else 200),
             resp_statusText = ''OK'', resp_text = Inr [], resp_json = Inl ''no json''\<rparr>"
  by (simp_all add: accepting_env_def quiet_env_def)

lemma accepting_createZip:
  "createZip (accepting_env l) comps tempDir name tr
     = (Inr (path_join tempDir (name @ ''.zip'')),
        tr @ [EvMkdir tempDir, EvRm (path_join tempDir (name @ ''.zip'')),
              EvExecZip (path_join tempDir (name @ ''.zip'')) comps])"
  by (simp add: createZip_unfold accepting_env_simps)

lemma accepting_upload:
  "uploadDatastoreZip (accepting_env l) base ws store zipPath auth ow tr
     = (Inr (), tr @ [EvReadFile zipPath, EvFetch (upload_request base ws store auth ow ''PK'')])"
  by (simp add: uploadDatastoreZip_unfold accepting_env_simps resp_ok_def)

lemma accepting_publish:
  "publishLayer (accepting_env l) base ws store layerName nativeName auth ow tr
     = (Inr (), tr @ [EvFetch (json_request ''POST'' (publish_url base ws store) auth
                                (featurePayload layerName nativeName))])"
  by (simp add: publishLayer_unfold accepting_env_simps resp_ok_def)

lemma accepting_try:
  "try_upload_and_publish (accepting_env l) opts auth rel store layerName raw zipPath tr
     = tr @ [EvReadFile zipPath,
             EvFetch (upload_request (geoserverUrl opts) (workspace opts) store auth (overwrite opts) ''PK''),
             EvFetch (json_request ''POST'' (publish_url (geoserverUrl opts) (workspace opts) store) auth
                        (featurePayload layerName raw)),
             EvConsole (LogPublished layerName)]"
  by (simp add: try_upload_and_publish_def upload_and_publish_def accepting_upload accepting_publish)

lemmas name_eval = storeName_of_def layerName_of_def relative_of_def path_relative_def
  sanitizeName_def trim_def is_space_def sample_options_def

lemma spaced_names:
  "path_dirname ''/d/ lake.shp'' = ''/d''"
  "path_parse_name ''/d/ lake.shp'' = '' lake''"
  "toLowerCase '' lake'' = '' lake''"
  by (simp_all add: path_eval string_eval)

lemma spaced_item:
  "storeName_of sample_options ''/d/ lake.shp'' = ''s_lake''"
  "layerName_of sample_options ''/d/ lake.shp'' = ''l_lake''"
  "relative_of sample_options ''/d/ lake.shp'' = '' lake.shp''"
  by (simp_all add: name_eval spaced_names char_eval startsWith_def)

lemma spaced_components:
  "gatherComponents spaced_env ''/d/ lake.shp'' tr
     = (Inr [''/d/ lake.shp'', ''/d/ lake.shx'', ''/d/ lake.dbf''], tr @ [EvReaddir ''/d''])"
proof -
  have "gather_loop ''/d'' '' lake'' ['' lake.shp'', '' lake.shx'', '' lake.dbf''] []
          = [''/d/ lake.shp'', ''/d/ lake.shx'', ''/d/ lake.dbf'']"
    by (simp add: string_eval allowedSuffixes_def path_join_def)
  moreover have "check_required p required [''/d/ lake.shp'', ''/d/ lake.shx'', ''/d/ lake.dbf'']
          = Inr [''/d/ lake.shp'', ''/d/ lake.shx'', ''/d/ lake.dbf'']" for p
    by (simp add: required_def string_eval)
  ultimately show ?thesis
    unfolding gatherComponents_unfold spaced_names spaced_env_def
    by (simp add: accepting_env_simps del: gather_loop.simps check_required.simps)
qed

lemma spaced_run:
  "main_loop_body spaced_env sample_options ''Basic dTpw'' ''/tmp/t'' ''/d/ lake.shp'' []
     = [EvConsole (LogProcessing '' lake.shp'' ''s_lake'' ''l_lake''),
        EvReaddir ''/d'',
        EvNow,
        EvMkdir ''/tmp/t'',
        EvRm ''/tmp/t/s_lake-17.zip'',
        EvExecZip ''/tmp/t/s_lake-17.zip'' [''/d/ lake.shp'', ''/d/ lake.shx'', ''/d/ lake.dbf''],
        EvReadFile ''/tmp/t/s_lake-17.zip'',
        EvFetch (upload_request ''http://h/g'' ''ws'' ''s_lake'' ''Basic dTpw'' True ''PK''),
        EvFetch (json_request ''POST'' (publish_url ''http://h/g'' ''ws'' ''s_lake'') ''Basic dTpw''
                   (featurePayload ''l_lake'' '' lake'')),
        EvConsole (LogPublished ''l_lake''),
        EvRm ''/tmp/t/s_lake-17.zip'']"
proof -
  have zip: "show_nat 17 = ''17''"
    by (simp add: number_eval)
  have opts: "geoserverUrl sample_options = ''http://h/g''" "workspace sample_options = ''ws''"
    "overwrite sample_options = True"
    by (simp_all add: sample_options_def)
  show ?thesis
    unfolding main_loop_body_unfold processing_line_def spaced_item spaced_names spaced_components
    by (simp add: spaced_env_def accepting_env_simps accepting_createZip accepting_try zip opts path_join_def)
qed

lemma parcels_names:
  "path_dirname ''/d/My Parcels.shp'' = ''/d''"
  "path_parse_name ''/d/My Parcels.shp'' = ''My Parcels''"
  "toLowerCase ''My Parcels'' = ''my parcels''"
  by (simp_all add: path_eval string_eval)

lemma parcels_item:
  "storeName_of sample_options ''/d/My Parcels.shp'' = ''s_My_Parcels''"
  "layerName_of sample_options ''/d/My Parcels.shp'' = ''l_My_Parcels''"
  "relative_of sample_options ''/d/My Parcels.shp'' = ''My Parcels.shp''"
  by (simp_all add: name_eval parcels_names char_eval startsWith_def)

lemma parcels_components:
  "gatherComponents parcels_env ''/d/My Parcels.shp'' tr
     = (Inr [''/d/My Parcels.shp'', ''/d/My Parcels.shx'', ''/d/My Parcels.dbf''],
        tr @ [EvReaddir ''/d''])"
proof -
  have "gather_loop ''/d'' ''my parcels'' [''My Parcels.shp'', ''My Parcels.shx'', ''My Parcels.dbf''] []
          = [''/d/My Parcels.shp'', ''/d/My Parcels.shx'', ''/d/My Parcels.dbf'']"
    by (simp add: string_eval allowedSuffixes_def path_join_def)
  moreover have "check_required p required [''/d/My Parcels.shp'', ''/d/My Parcels.shx'', ''/d/My Parcels.dbf'']
          = Inr [''/d/My Parcels.shp'', ''/d/My Parcels.shx'', ''/d/My Parcels.dbf'']" for p
    by (simp add: required_def string_eval)
  ultimately show ?thesis
    unfolding gatherComponents_unfold parcels_names parcels_env_def
    by (simp add: accepting_env_simps del: gather_loop.simps check_required.simps)
qed

section \<open>Derived names and the native name\<close>

text \<open>
  Claim C5, as the code has it. The store name and the layer name are the configured prefix
  followed by the base name with surrounding white space trimmed and every internal run of
  white space collapsed to one underscore (\<^verbatim>\<open>My Parcels\<close> gives \<^verbatim>\<open>My_Parcels\<close>);
  every iteration prints them first. When the iteration reaches publishing, the descriptor
  it posts carries the layer name and, as native name, the base name exactly as it stands
  in the file name: neither trimmed nor sanitised.
\<close>

theorem dataset_names:
  \<open>storeName_of opts shpPath = storePrefix opts @ collapsed_name (path_parse_name shpPath)
   \<and> layerName_of opts shpPath = layerPrefix opts @ collapsed_name (path_parse_name shpPath)
   \<and> collapsed_name ''My Parcels'' = ''My_Parcels''
   \<and> (\<exists>more. main_loop_body e opts auth tempDir shpPath tr
          = tr @ EvConsole (LogProcessing (path_relative (directory opts) shpPath)
                              (storeName_of opts shpPath) (layerName_of opts shpPath)) # more)
   \<and> (\<forall>componentPaths tr2 zipPath tr3 tr4.
         gatherComponents e shpPath (tr @ [EvConsole (processing_line opts shpPath)])
           = (Inr componentPaths, tr2)
         \<and> createZip e componentPaths tempDir
             (storeName_of opts shpPath @ ''-'' @ show_nat (date_now e tr2)) (tr2 @ [EvNow])
           = (Inr zipPath, tr3)
         \<and> uploadDatastoreZip e (geoserverUrl opts) (workspace opts) (storeName_of opts shpPath)
             zipPath auth (overwrite opts) tr3 = (Inr (), tr4)
         \<longrightarrow> (\<exists>more. main_loop_body e opts auth tempDir shpPath tr
                  = tr4 @ EvFetch \<lparr>req_method = ''POST'',
                                   req_url = geoserverUrl opts @ ''/rest/workspaces/''
                                     @ encodeURIComponent (workspace opts) @ ''/datastores/''
                                     @ encodeURIComponent (storeName_of opts shpPath)
                                     @ ''/featuretypes?recalculate=nativebbox,latlonbbox'',
                                   req_headers = [(''Content-Type'', ''application/json''),
                                                  (''Authorization'', auth)],
                                   req_body = Some (featurePayload (layerName_of opts shpPath)
                                                      (path_parse_name shpPath))\<rparr>
                         # more))\<close>
proof -
  have example: "collapsed_name ''My Parcels'' = ''My_Parcels''"
    by (simp add: collapsed_name_def space_words_def is_space_def char_eval)
  have first: "\<exists>more. main_loop_body e opts auth tempDir shpPath tr
          = tr @ EvConsole (LogProcessing (path_relative (directory opts) shpPath)
                              (storeName_of opts shpPath) (layerName_of opts shpPath)) # more"
    using main_loop_body_first [of e opts auth tempDir shpPath tr]
    by (simp add: processing_line_def relative_of_def)
  have post: "json_request ''POST''
                 (publish_url (geoserverUrl opts) (workspace opts) (storeName_of opts shpPath))
                 auth (featurePayload (layerName_of opts shpPath) (path_parse_name shpPath))
      = \<lparr>req_method = ''POST'',
         req_url = geoserverUrl opts @ ''/rest/workspaces/''
           @ encodeURIComponent (workspace opts) @ ''/datastores/''
           @ encodeURIComponent (storeName_of opts shpPath)
           @ ''/featuretypes?recalculate=nativebbox,latlonbbox'',
         req_headers = [(''Content-Type'', ''application/json''), (''Authorization'', auth)],
         req_body = Some (featurePayload (layerName_of opts shpPath) (path_parse_name shpPath))\<rparr>"
    by (simp add: json_request_def publish_url_def)
  show ?thesis
    unfolding post [symmetric]
    using item_names [of opts shpPath] example first main_loop_body_post [of e shpPath tr opts _ _ tempDir _ _ auth]
    by blast
qed

theorem dataset_names_witness:
  \<open>storeName_of sample_options ''/d/My Parcels.shp'' = ''s_My_Parcels''
   \<and> (\<exists>more. main_loop_body parcels_env sample_options ''Basic dTpw'' ''/tmp/t'' ''/d/My Parcels.shp'' []
          = ([EvConsole (processing_line sample_options ''/d/My Parcels.shp''), EvReaddir ''/d'', EvNow]
               @ [EvMkdir ''/tmp/t'',
                  EvRm (path_join ''/tmp/t'' (''s_My_Parcels-17'' @ ''.zip'')),
                  EvExecZip (path_join ''/tmp/t'' (''s_My_Parcels-17'' @ ''.zip''))
                    [''/d/My Parcels.shp'', ''/d/My Parcels.shx'', ''/d/My Parcels.dbf'']])
             @ [EvReadFile (path_join ''/tmp/t'' (''s_My_Parcels-17'' @ ''.zip'')),
                EvFetch (upload_request ''http://h/g'' ''ws'' ''s_My_Parcels'' ''Basic dTpw'' True ''PK'')]
             @ EvFetch \<lparr>req_method = ''POST'',
                        req_url = ''http://h/g'' @ ''/rest/workspaces/'' @ encodeURIComponent ''ws''
                          @ ''/datastores/'' @ encodeURIComponent ''s_My_Parcels''
                          @ ''/featuretypes?recalculate=nativebbox,latlonbbox'',
                        req_headers = [(''Content-Type'', ''application/json''),
                                       (''Authorization'', ''Basic dTpw'')],
                        req_body = Some (featurePayload ''l_My_Parcels'' ''My Parcels'')\<rparr>
               # more)\<close>
proof -
  let ?p = "''/d/My Parcels.shp''"
  let ?comps = "[''/d/My Parcels.shp'', ''/d/My Parcels.shx'', ''/d/My Parcels.dbf'']"
  let ?zip = "path_join ''/tmp/t'' (''s_My_Parcels-17'' @ ''.zip'')"
  let ?tr2 = "[EvConsole (processing_line sample_options ?p), EvReaddir ''/d'']"
  let ?tr3 = "(?tr2 @ [EvNow]) @ [EvMkdir ''/tmp/t'', EvRm ?zip, EvExecZip ?zip ?comps]"
  let ?tr4 = "?tr3 @ [EvReadFile ?zip,
                EvFetch (upload_request ''http://h/g'' ''ws'' ''s_My_Parcels'' ''Basic dTpw'' True ''PK'')]"
  have opts: "geoserverUrl sample_options = ''http://h/g''" "workspace sample_options = ''ws''"
    "overwrite sample_options = True"
    by (simp_all add: sample_options_def)
  have n: "show_nat 17 = ''17''"
    by (simp add: number_eval)
  have g: "gatherComponents parcels_env ?p ([] @ [EvConsole (processing_line sample_options ?p)])
             = (Inr ?comps, ?tr2)"
    by (simp add: parcels_components)
  have z: "createZip parcels_env ?comps ''/tmp/t''
             (storeName_of sample_options ?p @ ''-'' @ show_nat (date_now parcels_env ?tr2))
             (?tr2 @ [EvNow]) = (Inr ?zip, ?tr3)"
    unfolding parcels_env_def accepting_createZip accepting_env_simps parcels_item n
    by simp
  have u: "uploadDatastoreZip parcels_env (geoserverUrl sample_options) (workspace sample_options)
             (storeName_of sample_options ?p) ?zip ''Basic dTpw'' (overwrite sample_options) ?tr3
             = (Inr (), ?tr4)"
    unfolding parcels_env_def accepting_upload opts parcels_item
    by simp
  from dataset_names [of sample_options ?p parcels_env "''Basic dTpw''" "''/tmp/t''" "[]"] g z u
  have "\<exists>more. main_loop_body parcels_env sample_options ''Basic dTpw'' ''/tmp/t'' ?p []
          = ?tr4 @ EvFetch \<lparr>req_method = ''POST'',
                        req_url = geoserverUrl sample_options @ ''/rest/workspaces/''
                          @ encodeURIComponent (workspace sample_options)
                          @ ''/datastores/'' @ encodeURIComponent (storeName_of sample_options ?p)
                          @ ''/featuretypes?recalculate=nativebbox,latlonbbox'',
                        req_headers = [(''Content-Type'', ''application/json''),
                                       (''Authorization'', ''Basic dTpw'')],
                        req_body = Some (featurePayload (layerName_of sample_options ?p)
                                           (path_parse_name ?p))\<rparr> # more"
    by blast
  then show ?thesis
    unfolding opts parcels_item parcels_names
    by simp
qed

text \<open>
  Claim C5 as stated fails on the native name: for the file \<^verbatim>\<open>/d/ lake.shp\<close> the
  descriptor posted carries the native name with its leading space, not the trimmed
  \<^verbatim>\<open>lake\<close>.
\<close>

theorem native_name_untrimmed:
  \<open>main_loop_body spaced_env sample_options ''Basic dTpw'' ''/tmp/t'' ''/d/ lake.shp'' []
     = [EvConsole (LogProcessing '' lake.shp'' ''s_lake'' ''l_lake''),
        EvReaddir ''/d'',
        EvNow,
        EvMkdir ''/tmp/t'',
        EvRm ''/tmp/t/s_lake-17.zip'',
        EvExecZip ''/tmp/t/s_lake-17.zip'' [''/d/ lake.shp'', ''/d/ lake.shx'', ''/d/ lake.dbf''],
        EvReadFile ''/tmp/t/s_lake-17.zip'',
        EvFetch (upload_request ''http://h/g'' ''ws'' ''s_lake'' ''Basic dTpw'' True ''PK''),
        EvFetch (json_request ''POST'' (publish_url ''http://h/g'' ''ws'' ''s_lake'') ''Basic dTpw''
                   ''{"featureType":{"name":"l_lake","nativeName":" lake","enabled":true}}''),
        EvConsole (LogPublished ''l_lake''),
        EvRm ''/tmp/t/s_lake-17.zip'']
   \<and> path_parse_name ''/d/ lake.shp'' = '' lake''
   \<and> trim (path_parse_name ''/d/ lake.shp'') = ''lake''
   \<and> featurePayload ''l_lake'' (trim (path_parse_name ''/d/ lake.shp''))
       = ''{"featureType":{"name":"l_lake","nativeName":"lake","enabled":true}}''\<close>
proof -
  have "featurePayload ''l_lake'' '' lake''
          = ''{\"featureType\":{\"name\":\"l_lake\",\"nativeName\":\" lake\",\"enabled\":true}}''"
    by (simp add: featurePayload_def json_quote_def json_escape_char_def char_eval)
  moreover have "featurePayload ''l_lake'' ''lake''
          = ''{\"featureType\":{\"name\":\"l_lake\",\"nativeName\":\"lake\",\"enabled\":true}}''"
    by (simp add: featurePayload_def json_quote_def json_escape_char_def char_eval)
  moreover have "trim '' lake'' = ''lake''"
    by (simp add: trim_def is_space_def char_eval)
  ultimately show ?thesis
    using spaced_run by (simp add: spaced_names)
qed


section \<open>The whole run\<close>

lemma walk_trace:
  "\<exists>dirs. snd (walk dir entries found tr) = tr @ map EvReaddir dirs"
proof (induction dir entries found tr rule: walk.induct)
  case (1 dir found tr)
  show ?case by simp
next
  case (2 dir name sub entries found tr)
  let ?tr1 = "tr @ [EvReaddir (path_join dir name)]"
  obtain r1 d1 where w1: "walk (path_join dir name) sub found ?tr1 = (r1, ?tr1 @ map EvReaddir d1)"
    using "2.IH"(1) by (metis prod.collapse)
  show ?case
  proof (cases r1)
    case (Inl msg)
    with w1 have "snd (walk dir (DirEnt name sub # entries) found tr)
                    = tr @ map EvReaddir (path_join dir name # d1)"
      by simp
    then show ?thesis ..
  next
    case (Inr found')
    obtain d2 where "snd (walk dir entries found' (?tr1 @ map EvReaddir d1))
                       = (?tr1 @ map EvReaddir d1) @ map EvReaddir d2"
      using "2.IH"(2) [OF w1 [symmetric, unfolded Inr] refl] by blast
    with w1 Inr have "snd (walk dir (DirEnt name sub # entries) found tr)
                    = tr @ map EvReaddir (path_join dir name # d1 @ d2)"
      by simp
    then show ?thesis ..
  qed
next
  case (3 dir name msg entries found tr)
  have "snd (walk dir (BadDirEnt name msg # entries) found tr) = tr @ map EvReaddir [path_join dir name]"
    by simp
  then show ?case ..
next
  case (4 dir name entries found tr)
  then show ?case by simp
next
  case (5 dir name entries found tr)
  then show ?case by simp
qed

lemma collectShapefiles_trace:
  "\<exists>dirs. snd (collectShapefiles e rootDir tr) = tr @ map EvReaddir (rootDir # dirs)"
proof (cases "fs_tree e tr rootDir")
  case (Inl msg)
  then have "snd (collectShapefiles e rootDir tr) = tr @ map EvReaddir (rootDir # [])"
    by (simp add: collectShapefiles_def)
  then show ?thesis ..
next
  case (Inr entries)
  obtain dirs where "snd (walk rootDir entries [] (tr @ [EvReaddir rootDir]))
                       = (tr @ [EvReaddir rootDir]) @ map EvReaddir dirs"
    using walk_trace by blast
  with Inr have "snd (collectShapefiles e rootDir tr) = tr @ map EvReaddir (rootDir # dirs)"
    by (simp add: collectShapefiles_def)
  then show ?thesis ..
qed

lemma main_unfold:
  "main e (Inr opts) tr =
     (case fs_access e tr (directory opts) of
        Some msg \<Rightarrow> fatal msg (tr @ [EvAccess (directory opts)])
      | None \<Rightarrow>
          (case collectShapefiles e (directory opts) (tr @ [EvAccess (directory opts)]) of
             (Inl msg, tr1) \<Rightarrow> fatal msg tr1
           | (Inr shapefiles, tr1) \<Rightarrow>
               if shapefiles = []
               then (0, tr1 @ [EvConsole (LogNoShapefiles (directory opts))])
               else
                 (case fs_mkdtemp e (tr1 @ [EvBase64 (username opts @ '':'' @ password opts)])
                         (path_join (os_tmpdir e) ''geoserver-shp-'') of
                    Inl msg \<Rightarrow>
                      fatal msg (tr1 @ [EvBase64 (username opts @ '':'' @ password opts),
                                        EvMkdtemp (path_join (os_tmpdir e) ''geoserver-shp-'')])
                  | Inr tempDir \<Rightarrow>
                      (0, main_loop e opts
                            (''Basic '' @ base64_utf8 e (username opts @ '':'' @ password opts))
                            tempDir shapefiles
                            (tr1 @ [EvBase64 (username opts @ '':'' @ password opts),
                                    EvMkdtemp (path_join (os_tmpdir e) ''geoserver-shp-''),
                                    EvConsole (LogFound (length shapefiles))])
                          @ [EvRmRecursive tempDir, EvConsole LogFinished]))))"
  by (simp add: main_def buildAuthHeader_def Let_def split: option.splits sum.splits prod.splits)

text \<open>
  Claim C7. When the root directory is accessible and discovery returns no primary file,
  the run ends with exit code 0 after the access check, the listings of the walk and the
  line that reports that nothing was found: no temporary directory is made, the
  credentials are not encoded, no request is sent and no archive is built.
\<close>

theorem nothing_to_do:
  assumes "fs_access e tr (directory opts) = None"
      and "fst (collectShapefiles e (directory opts) (tr @ [EvAccess (directory opts)])) = Inr []"
  shows "main e (Inr opts) tr
           = (0, snd (collectShapefiles e (directory opts) (tr @ [EvAccess (directory opts)]))
                   @ [EvConsole (LogNoShapefiles (directory opts))])
         \<and> (\<exists>dirs. main e (Inr opts) tr
                 = (0, tr @ EvAccess (directory opts) # map EvReaddir dirs
                         @ [EvConsole (LogNoShapefiles (directory opts))])
               \<and> (\<forall>ev \<in> set (EvAccess (directory opts) # map EvReaddir dirs
                                 @ [EvConsole (LogNoShapefiles (directory opts))]).
                     (\<forall>template. ev \<noteq> EvMkdtemp template) \<and> (\<forall>dir. ev \<noteq> EvMkdir dir)
                     \<and> (\<forall>credentials. ev \<noteq> EvBase64 credentials)
                     \<and> (\<forall>request. ev \<noteq> EvFetch request)
                     \<and> (\<forall>zipPath files. ev \<noteq> EvExecZip zipPath files)))"
proof -
  let ?tr0 = "tr @ [EvAccess (directory opts)]"
  obtain dirs where dirs: "snd (collectShapefiles e (directory opts) ?tr0)
                       = ?tr0 @ map EvReaddir (directory opts # dirs)"
    using collectShapefiles_trace by blast
  from assms(2) have c: "collectShapefiles e (directory opts) ?tr0
                        = (Inr [], snd (collectShapefiles e (directory opts) ?tr0))"
    by (metis prod.collapse)
  from assms(1) have m: "main e (Inr opts) tr
           = (0, snd (collectShapefiles e (directory opts) ?tr0)
                   @ [EvConsole (LogNoShapefiles (directory opts))])"
    by (subst main_unfold, subst c) simp
  moreover from m dirs have "main e (Inr opts) tr
           = (0, tr @ EvAccess (directory opts) # map EvReaddir (directory opts # dirs)
                   @ [EvConsole (LogNoShapefiles (directory opts))])"
    by simp
  then have "\<exists>dirs. main e (Inr opts) tr
                 = (0, tr @ EvAccess (directory opts) # map EvReaddir dirs
                         @ [EvConsole (LogNoShapefiles (directory opts))])
               \<and> (\<forall>ev \<in> set (EvAccess (directory opts) # map EvReaddir dirs
                                 @ [EvConsole (LogNoShapefiles (directory opts))]).
                     (\<forall>template. ev \<noteq> EvMkdtemp template) \<and> (\<forall>dir. ev \<noteq> EvMkdir dir)
                     \<and> (\<forall>credentials. ev \<noteq> EvBase64 credentials)
                     \<and> (\<forall>request. ev \<noteq> EvFetch request)
                     \<and> (\<forall>zipPath files. ev \<noteq> EvExecZip zipPath files))"
    by (intro exI [of _ "directory opts # dirs"]) auto
  ultimately show ?thesis ..
qed

lemma quiet_discovery:
  "collectShapefiles quiet_env ''/d'' tr = (Inr [], tr @ [EvReaddir ''/d''])"
  by (simp add: collectShapefiles_def quiet_env_def)

theorem nothing_to_do_witness:
  "main quiet_env (Inr sample_options) []
     = (0, [EvAccess ''/d'', EvReaddir ''/d'', EvConsole (LogNoShapefiles ''/d'')])"
proof -
  have d: "directory sample_options = ''/d''"
    by (simp add: sample_options_def)
  have h1: "fs_access quiet_env [] (directory sample_options) = None"
    by (simp add: quiet_env_def)
  have h2: "fst (collectShapefiles quiet_env (directory sample_options)
                   ([] @ [EvAccess (directory sample_options)])) = Inr []"
    by (simp add: d quiet_discovery)
  from nothing_to_do [OF h1 h2]
  have "main quiet_env (Inr sample_options) []
          = (0, snd (collectShapefiles quiet_env (directory sample_options)
                       ([] @ [EvAccess (directory sample_options)]))
                  @ [EvConsole (LogNoShapefiles (directory sample_options))])"
    by (rule conjunct1)
  then show ?thesis
    by (simp add: d quiet_discovery)
qed

text \<open>
  Claim C6. An iteration that has grouped the components and built the bundle ends, after
  whatever upload and publishing did (the events in between end with the line that
  reports the layer, also after a skip, or with the line that reports the failure), with
  the removal of the bundle file, and only then the loop goes on. A run that found primary
  files and made its temporary directory ends with the recursive removal of that
  directory, followed by the closing line.
\<close>

theorem bundle_cleanup:
  "(\<forall>componentPaths tr2 zipPath tr3.
       gatherComponents e shpPath (tr @ [EvConsole (processing_line opts shpPath)])
         = (Inr componentPaths, tr2)
       \<and> createZip e componentPaths tempDir
           (storeName_of opts shpPath @ ''-'' @ show_nat (date_now e tr2)) (tr2 @ [EvNow])
         = (Inr zipPath, tr3)
       \<longrightarrow> (\<exists>events.
              main_loop_body e opts auth tempDir shpPath tr = tr3 @ events @ [EvRm zipPath]
              \<and> main_loop e opts auth tempDir (shpPath # rest) tr
                  = main_loop e opts auth tempDir rest (tr3 @ events @ [EvRm zipPath])
              \<and> events \<noteq> []
              \<and> (last events = EvConsole (LogPublished (layerName_of opts shpPath))
                   \<or> (\<exists>msg. last events = EvConsole (ErrFailedFor (relative_of opts shpPath) msg)))))
   \<and> (\<forall>shapefiles tr1 runDir.
         fs_access e tr0 (directory opts) = None
         \<and> collectShapefiles e (directory opts) (tr0 @ [EvAccess (directory opts)])
             = (Inr shapefiles, tr1)
         \<and> shapefiles \<noteq> []
         \<and> fs_mkdtemp e (tr1 @ [EvBase64 (username opts @ '':'' @ password opts)])
               (path_join (os_tmpdir e) ''geoserver-shp-'') = Inr runDir
         \<longrightarrow> main e (Inr opts) tr0
               = (0, main_loop e opts
                       (''Basic '' @ base64_utf8 e (username opts @ '':'' @ password opts))
                       runDir shapefiles
                       (tr1 @ [EvBase64 (username opts @ '':'' @ password opts),
                               EvMkdtemp (path_join (os_tmpdir e) ''geoserver-shp-''),
                               EvConsole (LogFound (length shapefiles))])
                     @ [EvRmRecursive runDir, EvConsole LogFinished]))"
proof (intro conjI allI impI)
  fix componentPaths tr2 zipPath tr3
  assume a: "gatherComponents e shpPath (tr @ [EvConsole (processing_line opts shpPath)])
         = (Inr componentPaths, tr2)
       \<and> createZip e componentPaths tempDir
           (storeName_of opts shpPath @ ''-'' @ show_nat (date_now e tr2)) (tr2 @ [EvNow])
         = (Inr zipPath, tr3)"
  then have body: "main_loop_body e opts auth tempDir shpPath tr
           = try_upload_and_publish e opts auth (relative_of opts shpPath) (storeName_of opts shpPath)
               (layerName_of opts shpPath) (path_parse_name shpPath) zipPath tr3 @ [EvRm zipPath]"
    using main_loop_body_zipped by blast
  obtain events where ev:
    "try_upload_and_publish e opts auth (relative_of opts shpPath) (storeName_of opts shpPath)
       (layerName_of opts shpPath) (path_parse_name shpPath) zipPath tr3 = tr3 @ events"
    "events \<noteq> []"
    "last events = EvConsole (LogPublished (layerName_of opts shpPath))
       \<or> (\<exists>msg. last events = EvConsole (ErrFailedFor (relative_of opts shpPath) msg))"
    using try_upload_and_publish_trace by blast
  from body ev(1) have "main_loop_body e opts auth tempDir shpPath tr = tr3 @ events @ [EvRm zipPath]"
    by simp
  with ev(2,3)
  show "\<exists>events.
          main_loop_body e opts auth tempDir shpPath tr = tr3 @ events @ [EvRm zipPath]
          \<and> main_loop e opts auth tempDir (shpPath # rest) tr
              = main_loop e opts auth tempDir rest (tr3 @ events @ [EvRm zipPath])
          \<and> events \<noteq> []
          \<and> (last events = EvConsole (LogPublished (layerName_of opts shpPath))
               \<or> (\<exists>msg. last events = EvConsole (ErrFailedFor (relative_of opts shpPath) msg)))"
    by (intro exI [of _ events]) simp
next
  fix shapefiles tr1 runDir
  assume "fs_access e tr0 (directory opts) = None
         \<and> collectShapefiles e (directory opts) (tr0 @ [EvAccess (directory opts)])
             = (Inr shapefiles, tr1)
         \<and> shapefiles \<noteq> []
         \<and> fs_mkdtemp e (tr1 @ [EvBase64 (username opts @ '':'' @ password opts)])
               (path_join (os_tmpdir e) ''geoserver-shp-'') = Inr runDir"
  then show "main e (Inr opts) tr0
               = (0, main_loop e opts
                       (''Basic '' @ base64_utf8 e (username opts @ '':'' @ password opts))
                       runDir shapefiles
                       (tr1 @ [EvBase64 (username opts @ '':'' @ password opts),
                               EvMkdtemp (path_join (os_tmpdir e) ''geoserver-shp-''),
                               EvConsole (LogFound (length shapefiles))])
                     @ [EvRmRecursive runDir, EvConsole LogFinished])"
    by (simp add: main_unfold)
qed

lemma parcels_discovery:
  "collectShapefiles parcels_env ''/d'' tr = (Inr [''/d/My Parcels.shp''], tr @ [EvReaddir ''/d''])"
  by (simp add: collectShapefiles_def parcels_env_def accepting_env_def quiet_env_def
      string_eval path_join_def)

theorem bundle_cleanup_witness:
  "(\<exists>events.
      main_loop_body parcels_env sample_options ''Basic dTpw'' ''/tmp/t'' ''/d/My Parcels.shp'' []
        = [EvConsole (processing_line sample_options ''/d/My Parcels.shp''), EvReaddir ''/d'', EvNow,
           EvMkdir ''/tmp/t'', EvRm ''/tmp/t/s_My_Parcels-17.zip'',
           EvExecZip ''/tmp/t/s_My_Parcels-17.zip''
             [''/d/My Parcels.shp'', ''/d/My Parcels.shx'', ''/d/My Parcels.dbf'']]
          @ events @ [EvRm ''/tmp/t/s_My_Parcels-17.zip''])
   \<and> main parcels_env (Inr sample_options) []
       = (0, main_loop parcels_env sample_options ''Basic dTpw'' ''/tmp/geoserver-shp-abc''
               [''/d/My Parcels.shp'']
               [EvAccess ''/d'', EvReaddir ''/d'', EvBase64 ''u:p'',
                EvMkdtemp ''/tmp/geoserver-shp-'', EvConsole (LogFound 1)]
             @ [EvRmRecursive ''/tmp/geoserver-shp-abc'', EvConsole LogFinished])"
proof -
  let ?p = "''/d/My Parcels.shp''"
  let ?comps = "[''/d/My Parcels.shp'', ''/d/My Parcels.shx'', ''/d/My Parcels.dbf'']"
  let ?zip = "''/tmp/t/s_My_Parcels-17.zip''"
  let ?tr2 = "[EvConsole (processing_line sample_options ?p), EvReaddir ''/d'']"
  let ?tr3 = "(?tr2 @ [EvNow]) @ [EvMkdir ''/tmp/t'', EvRm ?zip, EvExecZip ?zip ?comps]"
  have opts: "directory sample_options = ''/d''" "username sample_options = ''u''"
    "password sample_options = ''p''"
    by (simp_all add: sample_options_def)
  have n: "show_nat 17 = ''17''"
    by (simp add: number_eval)
  have g: "gatherComponents parcels_env ?p ([] @ [EvConsole (processing_line sample_options ?p)])
             = (Inr ?comps, ?tr2)"
    by (simp add: parcels_components)
  have z: "createZip parcels_env ?comps ''/tmp/t''
             (storeName_of sample_options ?p @ ''-'' @ show_nat (date_now parcels_env ?tr2))
             (?tr2 @ [EvNow]) = (Inr ?zip, ?tr3)"
    unfolding parcels_env_def accepting_createZip accepting_env_simps parcels_item n
    by (simp add: path_join_def)
  have a: "fs_access parcels_env [] (directory sample_options) = None"
    by (simp add: parcels_env_def accepting_env_simps)
  have c: "collectShapefiles parcels_env (directory sample_options)
             ([] @ [EvAccess (directory sample_options)])
             = (Inr [?p], [EvAccess ''/d'', EvReaddir ''/d''])"
    by (simp add: opts parcels_discovery)
  have m: "fs_mkdtemp parcels_env
             ([EvAccess ''/d'', EvReaddir ''/d'']
                @ [EvBase64 (username sample_options @ '':'' @ password sample_options)])
             (path_join (os_tmpdir parcels_env) ''geoserver-shp-'') = Inr ''/tmp/geoserver-shp-abc''"
    by (simp add: parcels_env_def accepting_env_simps path_join_def)
  note both = bundle_cleanup [of parcels_env ?p "[]" sample_options "''/tmp/t''" "''Basic dTpw''" "[]" "[]"]
  from both g z
  have "\<exists>events. main_loop_body parcels_env sample_options ''Basic dTpw'' ''/tmp/t'' ?p []
          = ?tr3 @ events @ [EvRm ?zip]"
    by blast
  moreover from both a c m
  have "main parcels_env (Inr sample_options) []
       = (0, main_loop parcels_env sample_options
               (''Basic '' @ base64_utf8 parcels_env (username sample_options @ '':'' @ password sample_options))
               ''/tmp/geoserver-shp-abc'' [?p]
               ([EvAccess ''/d'', EvReaddir ''/d'']
                  @ [EvBase64 (username sample_options @ '':'' @ password sample_options),
                     EvMkdtemp (path_join (os_tmpdir parcels_env) ''geoserver-shp-''),
                     EvConsole (LogFound (length [?p]))])
             @ [EvRmRecursive ''/tmp/geoserver-shp-abc'', EvConsole LogFinished])"
    by blast
  ultimately show ?thesis
    by (simp add: opts parcels_env_def accepting_env_simps path_join_def)
qed


section \<open>Properties of the listing utility\<close>

lemma fetchFeatureTypes_unfold:
  "fetchFeatureTypes e base ws auth tr =
     (case net_fetch e tr (featuretypes_request base ws auth) of
        Inl msg \<Rightarrow> Inl msg
      | Inr response \<Rightarrow>
          if resp_status response = 404 then Inr []
          else if \<not> resp_ok response
          then (case resp_text response of
                  Inl msg \<Rightarrow> Inl msg
                | Inr body \<Rightarrow> Inl (fetch_error ws response body))
          else (case resp_json response of
                  Inl msg \<Rightarrow> Inl msg
                | Inr payload \<Rightarrow> Inr (featureType_list payload)),
      tr @ [EvFetch (featuretypes_request base ws auth)])"
  by (simp add: fetchFeatureTypes_def Let_def split: sum.splits)

lemma getPublishedShapeWfsUrls_unfold:
  "getPublishedShapeWfsUrls e u base ws user pw maxFeatures tr =
     (case fetchFeatureTypes e base ws (''Basic '' @ base64_utf8 e (user @ '':'' @ pw))
             (tr @ [EvBase64 (user @ '':'' @ pw)]) of
        (Inl msg, tr2) \<Rightarrow> (Inl msg, tr2)
      | (Inr featureTypes, tr2) \<Rightarrow>
          (map_result (wfs_entry_of u base ws maxFeatures) featureTypes, tr2))"
  by (simp add: getPublishedShapeWfsUrls_def buildAuthHeader_def Let_def)

text \<open>
  Claim C9. A response with status 404 to the listing request makes \<open>fetchFeatureTypes\<close>
  return the empty list, and with it the whole query returns the empty list of entries;
  neither is an error. Any other response with a status outside 200 to 299 whose body can
  be read makes \<open>fetchFeatureTypes\<close> fail with a message that holds the status and the
  body.
\<close>

theorem listing_not_found_is_empty:
  assumes "net_fetch e tr (featuretypes_request base ws auth) = Inr response"
  shows \<open>featuretypes_request base ws auth
           = \<lparr>req_method = ''GET'',
              req_url = base @ ''/rest/workspaces/'' @ encodeURIComponent ws
                          @ ''/featuretypes.json?count=10000&startIndex=0'',
              req_headers = [(''Accept'', ''application/json''), (''Authorization'', auth)],
              req_body = None\<rparr>
         \<and> (resp_status response = 404 \<longrightarrow>
               fetchFeatureTypes e base ws auth tr
                 = (Inr [], tr @ [EvFetch (featuretypes_request base ws auth)])
               \<and> (\<forall>u user pw maxFeatures tr0.
                     tr = tr0 @ [EvBase64 (user @ '':'' @ pw)]
                     \<and> auth = ''Basic '' @ base64_utf8 e (user @ '':'' @ pw)
                     \<longrightarrow> getPublishedShapeWfsUrls e u base ws user pw maxFeatures tr0
                           = (Inr [], tr @ [EvFetch (featuretypes_request base ws auth)])))
         \<and> (\<forall>body. resp_status response \<noteq> 404
                    \<and> \<not> (200 \<le> resp_status response \<and> resp_status response \<le> 299)
                    \<and> resp_text response = Inr body
               \<longrightarrow> fetchFeatureTypes e base ws auth tr
                     = (Inl (''Failed to fetch feature types for workspace "'' @ ws @ ''". Status ''
                               @ show_nat (resp_status response) @ '' '' @ resp_statusText response
                               @ ''. Response: '' @ body),
                        tr @ [EvFetch (featuretypes_request base ws auth)]))\<close>
proof (intro conjI impI allI)
  show "featuretypes_request base ws auth
           = \<lparr>req_method = ''GET'',
              req_url = base @ ''/rest/workspaces/'' @ encodeURIComponent ws
                          @ ''/featuretypes.json?count=10000&startIndex=0'',
              req_headers = [(''Accept'', ''application/json''), (''Authorization'', auth)],
              req_body = None\<rparr>"
    by (simp add: featuretypes_request_def featuretypes_url_def)
next
  assume "resp_status response = 404"
  with assms show "fetchFeatureTypes e base ws auth tr
                     = (Inr [], tr @ [EvFetch (featuretypes_request base ws auth)])"
    by (simp add: fetchFeatureTypes_unfold)
next
  fix u user pw maxFeatures tr0
  assume "resp_status response = 404"
    and "tr = tr0 @ [EvBase64 (user @ '':'' @ pw)]
           \<and> auth = ''Basic '' @ base64_utf8 e (user @ '':'' @ pw)"
  with assms have "fetchFeatureTypes e base ws (''Basic '' @ base64_utf8 e (user @ '':'' @ pw))
                      (tr0 @ [EvBase64 (user @ '':'' @ pw)])
                     = (Inr [], tr @ [EvFetch (featuretypes_request base ws auth)])"
    by (simp add: fetchFeatureTypes_unfold)
  then show "getPublishedShapeWfsUrls e u base ws user pw maxFeatures tr0
                     = (Inr [], tr @ [EvFetch (featuretypes_request base ws auth)])"
    by (simp add: getPublishedShapeWfsUrls_unfold)
next
  fix body
  assume "resp_status response \<noteq> 404
            \<and> \<not> (200 \<le> resp_status response \<and> resp_status response \<le> 299)
            \<and> resp_text response = Inr body"
  with assms show "fetchFeatureTypes e base ws auth tr
                     = (Inl (''Failed to fetch feature types for workspace \"'' @ ws @ ''\". Status ''
                               @ show_nat (resp_status response) @ '' '' @ resp_statusText response
                               @ ''. Response: '' @ body),
                        tr @ [EvFetch (featuretypes_request base ws auth)])"
    by (simp add: fetchFeatureTypes_unfold resp_ok_def fetch_error_def status_message_def)
qed

theorem listing_not_found_is_empty_witness:
  \<open>getPublishedShapeWfsUrls (listing_env not_found) plain_urls ''http://h/g'' ''ws'' ''u'' ''p'' 1000 []
     = (Inr [], [EvBase64 ''u:p'', EvFetch (featuretypes_request ''http://h/g'' ''ws'' ''Basic dTpw'')])
   \<and> fst (fetchFeatureTypes (listing_env server_error) ''http://h/g'' ''ws'' ''Basic dTpw'' [])
     = Inl ''Failed to fetch feature types for workspace "ws". Status 500 Server Error. Response: boom''\<close>
proof -
  let ?req = "featuretypes_request ''http://h/g'' ''ws'' ''Basic dTpw''"
  have h1: "net_fetch (listing_env not_found) [EvBase64 ''u:p''] ?req = Inr not_found"
    by (simp add: listing_env_def)
  have h2: "net_fetch (listing_env server_error) [] ?req = Inr server_error"
    by (simp add: listing_env_def)
  have s404: "resp_status not_found = 404"
    by (simp add: not_found_def)
  have auth: "[EvBase64 ''u:p''] = [] @ [EvBase64 (''u'' @ '':'' @ ''p'')]
                \<and> ''Basic dTpw'' = ''Basic '' @ base64_utf8 (listing_env not_found) (''u'' @ '':'' @ ''p'')"
    by (simp add: listing_env_def quiet_env_def)
  have s500: "resp_status server_error \<noteq> 404
                \<and> \<not> (200 \<le> resp_status server_error \<and> resp_status server_error \<le> 299)
                \<and> resp_text server_error = Inr ''boom''"
    by (simp add: server_error_def)
  have "getPublishedShapeWfsUrls (listing_env not_found) plain_urls ''http://h/g'' ''ws'' ''u'' ''p'' 1000 []
          = (Inr [], [EvBase64 ''u:p''] @ [EvFetch ?req])"
    using listing_not_found_is_empty [OF h1] s404 auth by blast
  moreover have "fetchFeatureTypes (listing_env server_error) ''http://h/g'' ''ws'' ''Basic dTpw'' []
          = (Inl (''Failed to fetch feature types for workspace \"'' @ ''ws'' @ ''\". Status ''
                    @ show_nat (resp_status server_error) @ '' '' @ resp_statusText server_error
                    @ ''. Response: '' @ ''boom''),
             [] @ [EvFetch ?req])"
    using listing_not_found_is_empty [OF h2] s500 by blast
  ultimately show ?thesis
    by (simp add: server_error_def number_eval)
qed

text \<open>
  Claim C10. On a successful response the result is the payload's
  \<^verbatim>\<open>featureTypes.featureType\<close> member, normalised: the empty list when the member is
  absent or \<^verbatim>\<open>null\<close>, the one-element list of the member when it is an object, and the
  elements of the member when it is an array.
\<close>

theorem featureType_list_normalised:
  assumes "net_fetch e tr (featuretypes_request base ws auth) = Inr response"
      and "200 \<le> resp_status response \<and> resp_status response \<le> 299"
      and "resp_json response = Inr payload"
  shows "fst (fetchFeatureTypes e base ws auth tr) = Inr (featureType_list payload)
         \<and> (Option.bind (get_prop payload ''featureTypes'') (\<lambda>types. get_prop types ''featureType'') = None
              \<or> Option.bind (get_prop payload ''featureTypes'') (\<lambda>types. get_prop types ''featureType'')
                   = Some JNull
              \<longrightarrow> featureType_list payload = [])
         \<and> (\<forall>fields.
               Option.bind (get_prop payload ''featureTypes'') (\<lambda>types. get_prop types ''featureType'')
                 = Some (JObject fields)
               \<longrightarrow> featureType_list payload = [JObject fields])
         \<and> (\<forall>items.
               Option.bind (get_prop payload ''featureTypes'') (\<lambda>types. get_prop types ''featureType'')
                 = Some (JArray items)
               \<longrightarrow> featureType_list payload = items)"
proof -
  have chain: "optional_prop (optional_prop (Some payload) ''featureTypes'') ''featureType''
                 = Option.bind (get_prop payload ''featureTypes'') (\<lambda>types. get_prop types ''featureType'')"
    by (cases payload; cases "get_prop payload ''featureTypes''")
      (auto simp: optional_prop_def split: json.splits)
  from assms have "fst (fetchFeatureTypes e base ws auth tr) = Inr (featureType_list payload)"
    by (simp add: fetchFeatureTypes_unfold resp_ok_def)
  then show ?thesis
    unfolding featureType_list_def chain
    by (auto simp: Let_def)
qed

theorem featureType_list_normalised_witness:
  "fst (fetchFeatureTypes (listing_env single_payload) ''http://h/g'' ''ws'' ''Basic dTpw'' [])
     = Inr [roads]
   \<and> fst (fetchFeatureTypes (listing_env empty_payload) ''http://h/g'' ''ws'' ''Basic dTpw'' [])
     = Inr []"
proof -
  let ?req = "featuretypes_request ''http://h/g'' ''ws'' ''Basic dTpw''"
  let ?single = "JObject [(''featureTypes'', JObject [(''featureType'', roads)])]"
  let ?empty = "JObject [(''featureTypes'', JString [])]"
  have s1: "net_fetch (listing_env single_payload) [] ?req = Inr single_payload"
    by (simp add: listing_env_def)
  have s2: "200 \<le> resp_status single_payload \<and> resp_status single_payload \<le> 299"
    by (simp add: single_payload_def)
  have s3: "resp_json single_payload = Inr ?single"
    by (simp add: single_payload_def)
  have member: "Option.bind (get_prop ?single ''featureTypes'') (\<lambda>types. get_prop types ''featureType'')
                 = Some (JObject [(''name'', JString ''roads''), (''href'', JString ''http://h/g/roads.json'')])"
    by (simp add: roads_def)
  from featureType_list_normalised [OF s1 s2 s3] member
  have "fst (fetchFeatureTypes (listing_env single_payload) ''http://h/g'' ''ws'' ''Basic dTpw'' [])
          = Inr (featureType_list ?single)"
    and "featureType_list ?single
          = [JObject [(''name'', JString ''roads''), (''href'', JString ''http://h/g/roads.json'')]]"
    by blast+
  then have single: "fst (fetchFeatureTypes (listing_env single_payload) ''http://h/g'' ''ws'' ''Basic dTpw'' [])
          = Inr [roads]"
    by (simp add: roads_def)
  have e1: "net_fetch (listing_env empty_payload) [] ?req = Inr empty_payload"
    by (simp add: listing_env_def)
  have e2: "200 \<le> resp_status empty_payload \<and> resp_status empty_payload \<le> 299"
    by (simp add: empty_payload_def)
  have e3: "resp_json empty_payload = Inr ?empty"
    by (simp add: empty_payload_def)
  have absent: "Option.bind (get_prop ?empty ''featureTypes'') (\<lambda>types. get_prop types ''featureType'')
                 = None"
    by simp
  from featureType_list_normalised [OF e1 e2 e3] absent
  have "fst (fetchFeatureTypes (listing_env empty_payload) ''http://h/g'' ''ws'' ''Basic dTpw'' [])
          = Inr (featureType_list ?empty)"
    and "featureType_list ?empty = []"
    by blast+
  then have "fst (fetchFeatureTypes (listing_env empty_payload) ''http://h/g'' ''ws'' ''Basic dTpw'' [])
          = Inr []"
    by simp
  with single show ?thesis ..
qed

end
